theory Spec2Isabelle
  imports Complex_Main
begin

section \<open>JavaScript strings\<close>

text \<open>
  A JavaScript string is a sequence of UTF-16 code units. A code unit is modelled as a
  natural number (below 65536 in every string the program can hold), so that the byte
  order mark \<open>U+FEFF\<close> and the Unicode white space of the regular expressions can be
  written. \<open>js\<close> turns a literal of this theory into such a string.
\<close>

type_synonym jsstring = "nat list"

definition js :: "string \<Rightarrow> jsstring" where
  "js s = map of_char s"

text \<open>The class \<open>\s\<close> of a JavaScript regular expression, which is also what \<open>trim\<close> strips.\<close>

definition is_space :: "nat \<Rightarrow> bool" where
  "is_space c \<longleftrightarrow>
     (9 \<le> c \<and> c \<le> 13) \<or> c = 32 \<or> c = 0xA0 \<or> c = 0x1680 \<or> (0x2000 \<le> c \<and> c \<le> 0x200A) \<or>
     c = 0x2028 \<or> c = 0x2029 \<or> c = 0x202F \<or> c = 0x205F \<or> c = 0x3000 \<or> c = 0xFEFF"

definition trim :: "jsstring \<Rightarrow> jsstring" where
  "trim s = rev (dropWhile is_space (rev (dropWhile is_space s)))"

text \<open>\<open>starts_with p s\<close>: the text \<open>p\<close> is matched at the first position of \<open>s\<close>.\<close>

fun starts_with :: "jsstring \<Rightarrow> jsstring \<Rightarrow> bool" where
  "starts_with [] s = True"
| "starts_with (p # ps) [] = False"
| "starts_with (p # ps) (c # cs) = (p = c \<and> starts_with ps cs)"

text \<open>\<open>String.prototype.includes\<close>.\<close>

fun js_includes :: "jsstring \<Rightarrow> jsstring \<Rightarrow> bool" where
  "js_includes [] p = (p = [])"
| "js_includes (c # cs) p = (starts_with p (c # cs) \<or> js_includes cs p)"

section \<open>JSON.parse\<close>

text \<open>
  The value \<open>JSON.parse\<close> builds. An object keeps its members in the order of the text
  (a later member of the same name overrides an earlier one when a property is read, see
  \<open>get_prop\<close>). A number keeps its text: JavaScript converts it to a double, which this
  theory does not model, and no property proved here depends on a number.
\<close>

datatype json =
    JNull
  | JBool bool
  | JNumber jsstring
  | JString jsstring
  | JArray "json list"
  | JObject "(jsstring \<times> json) list"

text \<open>White space of the JSON grammar: tab, line feed, carriage return, space.\<close>

definition is_json_ws :: "nat \<Rightarrow> bool" where
  "is_json_ws c \<longleftrightarrow> c = 9 \<or> c = 10 \<or> c = 13 \<or> c = 32"

definition skip_ws :: "jsstring \<Rightarrow> jsstring" where
  "skip_ws s = dropWhile is_json_ws s"

definition is_digit :: "nat \<Rightarrow> bool" where
  "is_digit c \<longleftrightarrow> 48 \<le> c \<and> c \<le> 57"

definition hex_val :: "nat \<Rightarrow> nat option" where
  "hex_val c =
     (if 48 \<le> c \<and> c \<le> 57 then Some (c - 48)
      else if 65 \<le> c \<and> c \<le> 70 then Some (c - 55)
      else if 97 \<le> c \<and> c \<le> 102 then Some (c - 87)
      else None)"

text \<open>The code unit a one-letter escape stands for (\<open>\"  \\  \/  \b  \f  \n  \r  \t\<close>).\<close>

definition escape_val :: "nat \<Rightarrow> nat option" where
  "escape_val e =
     (if e = 34 then Some 34 else if e = 92 then Some 92 else if e = 47 then Some 47
      else if e = 98 then Some 8 else if e = 102 then Some 12 else if e = 110 then Some 10
      else if e = 114 then Some 13 else if e = 116 then Some 9 else None)"

text \<open>
  The characters of a string literal after its opening quote, up to the closing quote:
  the decoded string and the text that follows. A control character (below \<open>U+0020\<close>)
  or an unknown escape is a syntax error (\<open>None\<close>), and so is a literal that never closes.
\<close>

fun parse_chars :: "jsstring \<Rightarrow> (jsstring \<times> jsstring) option" where
  "parse_chars [] = None"
| "parse_chars (c # cs) =
     (if c = 34 then Some ([], cs)
      else if c = 92 then
        (case cs of
           [] \<Rightarrow> None
         | e # es \<Rightarrow>
             if e = 117 then
               (case es of
                  h1 # h2 # h3 # h4 # rest \<Rightarrow>
                    (case (hex_val h1, hex_val h2, hex_val h3, hex_val h4) of
                       (Some a, Some b, Some c', Some d) \<Rightarrow>
                         map_option (\<lambda>(str, r). ((a * 4096 + b * 256 + c' * 16 + d) # str, r))
                           (parse_chars rest)
                     | _ \<Rightarrow> None)
                | _ \<Rightarrow> None)
             else
               (case escape_val e of
                  None \<Rightarrow> None
                | Some v \<Rightarrow> map_option (\<lambda>(str, r). (v # str, r)) (parse_chars es)))
      else if c < 32 then None
      else map_option (\<lambda>(str, r). (c # str, r)) (parse_chars cs))"

text \<open>
  A number: \<open>-? (0 | [1-9][0-9]*) (. [0-9]+)? ([eE] [+-]? [0-9]+)?\<close>. The result is the
  text of the number and the text that follows.
\<close>

definition parse_int_part :: "jsstring \<Rightarrow> (jsstring \<times> jsstring) option" where
  "parse_int_part s =
     (case s of
        [] \<Rightarrow> None
      | c # cs \<Rightarrow>
          if c = 48 then Some ([c], cs)
          else if is_digit c then Some (c # takeWhile is_digit cs, dropWhile is_digit cs)
          else None)"

definition parse_frac_part :: "jsstring \<Rightarrow> (jsstring \<times> jsstring) option" where
  "parse_frac_part s =
     (case s of
        c # d # cs \<Rightarrow>
          if c = 46 then
            (if is_digit d then Some (c # d # takeWhile is_digit cs, dropWhile is_digit cs)
             else None)
          else Some ([], s)
      | [c] \<Rightarrow> if c = 46 then None else Some ([], s)
      | [] \<Rightarrow> Some ([], s))"

definition parse_exp_digits :: "jsstring \<Rightarrow> jsstring \<Rightarrow> (jsstring \<times> jsstring) option" where
  "parse_exp_digits pre s =
     (case s of
        d # cs \<Rightarrow>
          if is_digit d then Some (pre @ d # takeWhile is_digit cs, dropWhile is_digit cs)
          else None
      | [] \<Rightarrow> None)"

definition parse_exp_part :: "jsstring \<Rightarrow> (jsstring \<times> jsstring) option" where
  "parse_exp_part s =
     (case s of
        [] \<Rightarrow> Some ([], s)
      | c # cs \<Rightarrow>
          if c = 101 \<or> c = 69 then
            (case cs of
               [] \<Rightarrow> None
             | g # gs \<Rightarrow>
                 if g = 43 \<or> g = 45 then parse_exp_digits [c, g] gs
                 else parse_exp_digits [c] cs)
          else Some ([], s))"

definition parse_number :: "jsstring \<Rightarrow> (jsstring \<times> jsstring) option" where
  "parse_number s =
     (let (sign, s1) = (case s of [] \<Rightarrow> ([], s) | c # cs \<Rightarrow> if c = 45 then ([c], cs) else ([], s))
      in case parse_int_part s1 of
           None \<Rightarrow> None
         | Some (i, s2) \<Rightarrow>
             (case parse_frac_part s2 of
                None \<Rightarrow> None
              | Some (f, s3) \<Rightarrow>
                  (case parse_exp_part s3 of
                     None \<Rightarrow> None
                   | Some (e, s4) \<Rightarrow> Some (sign @ i @ f @ e, s4))))"

text \<open>
  The outcome of parsing one value: the value and the rest of the text, or a syntax
  error. The parser recurses on a counter of nested calls; \<open>OutOfFuel\<close> says that the
  counter ran out, which \<open>JSON_parse\<close> below never lets happen
  (lemma \<open>JSON_parse_fuel\<close>).
\<close>

datatype 'a presult = Ok 'a jsstring | SyntaxError | OutOfFuel

fun parse_value :: "nat \<Rightarrow> jsstring \<Rightarrow> json presult"
  and parse_elements :: "nat \<Rightarrow> jsstring \<Rightarrow> json list presult"
  and parse_members :: "nat \<Rightarrow> jsstring \<Rightarrow> (jsstring \<times> json) list presult"
where
  "parse_value 0 s = OutOfFuel"
| "parse_value (Suc n) [] = SyntaxError"
| "parse_value (Suc n) (c # cs) =
     (if c = 123 then
        (case skip_ws cs of
           [] \<Rightarrow> SyntaxError
         | d # ds \<Rightarrow>
             if d = 125 then Ok (JObject []) ds
             else (case parse_members n (d # ds) of
                     Ok ms r \<Rightarrow> Ok (JObject ms) r
                   | SyntaxError \<Rightarrow> SyntaxError
                   | OutOfFuel \<Rightarrow> OutOfFuel))
      else if c = 91 then
        (case skip_ws cs of
           [] \<Rightarrow> SyntaxError
         | d # ds \<Rightarrow>
             if d = 93 then Ok (JArray []) ds
             else (case parse_elements n (d # ds) of
                     Ok vs r \<Rightarrow> Ok (JArray vs) r
                   | SyntaxError \<Rightarrow> SyntaxError
                   | OutOfFuel \<Rightarrow> OutOfFuel))
      else if c = 34 then
        (case parse_chars cs of
           None \<Rightarrow> SyntaxError
         | Some (str, r) \<Rightarrow> Ok (JString str) r)
      else if starts_with (js ''true'') (c # cs) then Ok (JBool True) (drop 3 cs)
      else if starts_with (js ''false'') (c # cs) then Ok (JBool False) (drop 4 cs)
      else if starts_with (js ''null'') (c # cs) then Ok JNull (drop 3 cs)
      else (case parse_number (c # cs) of
              None \<Rightarrow> SyntaxError
            | Some (num, r) \<Rightarrow> Ok (JNumber num) r))"
| "parse_elements 0 s = OutOfFuel"
| "parse_elements (Suc n) s =
     (case parse_value n s of
        SyntaxError \<Rightarrow> SyntaxError
      | OutOfFuel \<Rightarrow> OutOfFuel
      | Ok v r \<Rightarrow>
          (case skip_ws r of
             [] \<Rightarrow> SyntaxError
           | d # ds \<Rightarrow>
               if d = 44 then
                 (case parse_elements n (skip_ws ds) of
                    Ok vs r' \<Rightarrow> Ok (v # vs) r'
                  | SyntaxError \<Rightarrow> SyntaxError
                  | OutOfFuel \<Rightarrow> OutOfFuel)
               else if d = 93 then Ok [v] ds
               else SyntaxError))"
| "parse_members 0 s = OutOfFuel"
| "parse_members (Suc n) s =
     (case s of
        [] \<Rightarrow> SyntaxError
      | q # qs \<Rightarrow>
          if q \<noteq> 34 then SyntaxError
          else (case parse_chars qs of
                  None \<Rightarrow> SyntaxError
                | Some (key, r0) \<Rightarrow>
                    (case skip_ws r0 of
                       [] \<Rightarrow> SyntaxError
                     | col # r1 \<Rightarrow>
                         if col \<noteq> 58 then SyntaxError
                         else (case parse_value n (skip_ws r1) of
                                 SyntaxError \<Rightarrow> SyntaxError
                               | OutOfFuel \<Rightarrow> OutOfFuel
                               | Ok v r \<Rightarrow>
                                   (case skip_ws r of
                                      [] \<Rightarrow> SyntaxError
                                    | d # ds \<Rightarrow>
                                        if d = 44 then
                                          (case parse_members n (skip_ws ds) of
                                             Ok ms r' \<Rightarrow> Ok ((key, v) # ms) r'
                                           | SyntaxError \<Rightarrow> SyntaxError
                                           | OutOfFuel \<Rightarrow> OutOfFuel)
                                        else if d = 125 then Ok [(key, v)] ds
                                        else SyntaxError)))))"

text \<open>
  \<open>JSON.parse(text)\<close>: one value between optional white space and nothing else.
  \<open>None\<close> is the \<open>SyntaxError\<close> the built-in throws.
\<close>

definition JSON_parse :: "jsstring \<Rightarrow> json option" where
  "JSON_parse s =
     (case parse_value (2 * length s + 2) (skip_ws s) of
        Ok v r \<Rightarrow> if skip_ws r = [] then Some v else None
      | SyntaxError \<Rightarrow> None
      | OutOfFuel \<Rightarrow> None)"

section \<open>The JSON repair parser\<close>

text \<open>
  \<open>retryJsonParse\<close> (the same text in \<open>app/api/deep-report/route.ts\<close> and
  \<open>app/api/report/route.ts\<close>) cleans the text with a chain of \<open>replace\<close> calls. Each
  call is one function here, in the order of the chain.
\<close>

text \<open>\<open>.replace(/\\(?!["\\/bfnrt])/g, '\\\\')\<close>: a backslash that is not followed by one of
  \<open>" \ / b f n r t\<close> is doubled.\<close>

definition is_escapable :: "nat \<Rightarrow> bool" where
  "is_escapable c \<longleftrightarrow> c = 34 \<or> c = 92 \<or> c = 47 \<or> c = 98 \<or> c = 102 \<or> c = 110 \<or> c = 114 \<or> c = 116"

fun fix_invalid_escapes :: "jsstring \<Rightarrow> jsstring" where
  "fix_invalid_escapes [] = []"
| "fix_invalid_escapes (c # cs) =
     (if c = 92 \<and> (case cs of [] \<Rightarrow> True | d # ds \<Rightarrow> \<not> is_escapable d)
      then 92 # 92 # fix_invalid_escapes cs
      else c # fix_invalid_escapes cs)"

text \<open>\<open>.replace(/(?<!\\)"/g, '\\"')\<close>: every quote that does not follow a backslash gets a
  backslash in front. The flag says whether the code unit before is a backslash.\<close>

fun escape_quotes :: "bool \<Rightarrow> jsstring \<Rightarrow> jsstring" where
  "escape_quotes after_backslash [] = []"
| "escape_quotes after_backslash (c # cs) =
     (if c = 34 \<and> \<not> after_backslash then 92 # 34 # escape_quotes False cs
      else c # escape_quotes (c = 92) cs)"

definition fix_unescaped_quotes :: "jsstring \<Rightarrow> jsstring" where
  "fix_unescaped_quotes s = escape_quotes False s"

text \<open>\<open>.replace(/[\n\r]+/g, '\\n')\<close>: every maximal run of line feeds and carriage returns
  becomes the two code units \<open>\n\<close>. The flag says whether a run is being skipped.\<close>

fun collapse_line_breaks :: "bool \<Rightarrow> jsstring \<Rightarrow> jsstring" where
  "collapse_line_breaks in_run [] = []"
| "collapse_line_breaks in_run (c # cs) =
     (if c = 10 \<or> c = 13 then
        (if in_run then collapse_line_breaks True cs
         else 92 # 110 # collapse_line_breaks True cs)
      else c # collapse_line_breaks False cs)"

definition fix_line_breaks :: "jsstring \<Rightarrow> jsstring" where
  "fix_line_breaks s = collapse_line_breaks False s"

text \<open>\<open>.replace(/\t/g, '\\t')\<close>.\<close>

fun fix_tabs :: "jsstring \<Rightarrow> jsstring" where
  "fix_tabs [] = []"
| "fix_tabs (c # cs) = (if c = 9 then 92 # 116 # fix_tabs cs else c # fix_tabs cs)"

text \<open>\<open>.replace(/^\uFEFF/, '')\<close>.\<close>

definition remove_bom :: "jsstring \<Rightarrow> jsstring" where
  "remove_bom s = (case s of [] \<Rightarrow> [] | c # cs \<Rightarrow> if c = 0xFEFF then cs else s)"

text \<open>\<open>.replace(/[\u0000-\u001F]+/g, '')\<close>.\<close>

definition remove_control :: "jsstring \<Rightarrow> jsstring" where
  "remove_control s = filter (\<lambda>c. \<not> c < 32) s"

text \<open>\<open>.replace(/```json\s*/, '')\<close>: the first \<open>```json\<close> and the white space after it.\<close>

fun strip_fence_open :: "jsstring \<Rightarrow> jsstring" where
  "strip_fence_open [] = []"
| "strip_fence_open (c # cs) =
     (if starts_with (js ''```json'') (c # cs) then dropWhile is_space (drop 6 cs)
      else c # strip_fence_open cs)"

text \<open>\<open>.replace(/\s*```\s*$/, '')\<close>: a text whose last three code units before trailing
  white space are \<open>```\<close> loses them, with the white space on both sides.\<close>

definition strip_fence_close :: "jsstring \<Rightarrow> jsstring" where
  "strip_fence_close s =
     (let r = dropWhile is_space (rev s)
      in if starts_with (js ''```'') r then rev (dropWhile is_space (drop 3 r)) else s)"

text \<open>\<open>.replace(/,\s*([\]}])/g, '$1')\<close>: a comma followed, after white space, by a closing
  bracket or brace is removed with that white space. \<open>comma_target\<close> is the text from the
  bracket on when the expression matches at a comma.\<close>

definition comma_target :: "jsstring \<Rightarrow> (nat \<times> jsstring) option" where
  "comma_target cs =
     (case dropWhile is_space cs of
        [] \<Rightarrow> None
      | d # ds \<Rightarrow> if d = 93 \<or> d = 125 then Some (d, ds) else None)"

function strip_trailing_commas :: "jsstring \<Rightarrow> jsstring" where
  "strip_trailing_commas [] = []"
| "strip_trailing_commas (c # cs) =
     (if c = 44 then
        (case comma_target cs of
           None \<Rightarrow> c # strip_trailing_commas cs
         | Some (d, ds) \<Rightarrow> d # strip_trailing_commas ds)
      else c # strip_trailing_commas cs)"
  by pat_completeness auto
termination
proof (relation "measure length")
  fix c :: nat and cs :: jsstring and x2 :: "nat \<times> jsstring" and d :: nat and ds :: jsstring
  assume "comma_target cs = Some x2" and "(d, ds) = x2"
  then have "dropWhile is_space cs = d # ds"
    by (auto simp: comma_target_def split: list.splits if_splits)
  then have "Suc (length ds) = length (dropWhile is_space cs)"
    by simp
  also have "\<dots> \<le> length cs"
    by (rule length_dropWhile_le)
  finally show "(ds, c # cs) \<in> measure length"
    by simp
qed auto

text \<open>
  The cleaning of one repair pass: the chain of replacements, \<open>trim\<close>, and the two
  wrapping steps (\<open>{\<close> in front of a text that does not start with \<open>{\<close> or \<open>[\<close>,
  \<open>}\<close> behind a text that does not end with \<open>]\<close> or \<open>}\<close>).
\<close>

definition wrap_open :: "jsstring \<Rightarrow> jsstring" where
  "wrap_open s = (case s of [] \<Rightarrow> [123] | c # cs \<Rightarrow> if c = 91 \<or> c = 123 then s else 123 # s)"

definition wrap_close :: "jsstring \<Rightarrow> jsstring" where
  "wrap_close s =
     (case rev s of [] \<Rightarrow> [125] | c # cs \<Rightarrow> if c = 93 \<or> c = 125 then s else s @ [125])"

definition clean_json :: "jsstring \<Rightarrow> jsstring" where
  "clean_json jsonMatch =
     wrap_close (wrap_open (trim (strip_trailing_commas (strip_fence_close (strip_fence_open
       (remove_control (remove_bom (fix_tabs (fix_line_breaks (fix_unescaped_quotes
         (fix_invalid_escapes jsonMatch)))))))))))"

definition MAX_RETRIES :: nat where
  "MAX_RETRIES = 2"

text \<open>
  The error \<open>retryJsonParse\<close> throws in the end: \<open>Failed to parse JSON after n attempts:\<close>
  followed by the message of the last \<open>SyntaxError\<close>, whose wording is the engine's.
\<close>

datatype parse_failure = FailedToParseJSON nat

text \<open>
  \<open>retryJsonParse(jsonMatch, retryCount)\<close>: a direct parse; when it throws and
  \<open>retryCount < MAX_RETRIES\<close>, the cleaned text is parsed with \<open>retryCount + 1\<close>.
  The one-second delay and the logging are left out.
\<close>

function retryJsonParse :: "jsstring \<Rightarrow> nat \<Rightarrow> parse_failure + json" where
  "retryJsonParse jsonMatch retryCount =
     (case JSON_parse jsonMatch of
        Some v \<Rightarrow> Inr v
      | None \<Rightarrow>
          if retryCount < MAX_RETRIES then retryJsonParse (clean_json jsonMatch) (retryCount + 1)
          else Inl (FailedToParseJSON (MAX_RETRIES + 1)))"
  by pat_completeness auto
termination
  by (relation "measure (\<lambda>(jsonMatch, retryCount). MAX_RETRIES - retryCount)") auto

section \<open>Values, errors and the outside world\<close>

text \<open>
  What a \<open>throw\<close> carries. \<open>Error m\<close> is an \<open>Error\<close> object with message \<open>m\<close>;
  \<open>AxiosError st m\<close> is the error of a failed HTTP request, with the status of the
  response when there was one; \<open>NonError\<close> is any thrown value that is not an \<open>Error\<close>.
\<close>

datatype exn = Error jsstring | AxiosError "nat option" jsstring | NonError

text \<open>\<open>error instanceof Error ? error.message : 'Unknown error'\<close>.\<close>

fun message_or_unknown :: "exn \<Rightarrow> jsstring" where
  "message_or_unknown (Error m) = m"
| "message_or_unknown (AxiosError st m) = m"
| "message_or_unknown NonError = js ''Unknown error''"

text \<open>\<open>error instanceof Error && error.message.includes('rate limit')\<close>: the test both
  retry loops use.\<close>

fun is_rate_limit :: "exn \<Rightarrow> bool" where
  "is_rate_limit (Error m) = js_includes m (js ''rate limit'')"
| "is_rate_limit (AxiosError st m) = js_includes m (js ''rate limit'')"
| "is_rate_limit NonError = False"

record DuckDuckResult =
  url :: jsstring
  title :: jsstring
  description :: jsstring

record SerpQuery =
  query :: jsstring
  researchGoal :: jsstring

record FetchedPage =
  page_url :: jsstring
  markdown :: jsstring

record ResearchResult =
  learnings :: "jsstring list"
  visitedUrls :: "jsstring list"
  errors :: "jsstring list"

text \<open>
  The state of the module: the counter \<open>totalJinaRequests\<close> and everything outside the
  program (the search engine, the content service, the language model, the rate-limit
  store, the clock).
\<close>

record 'w state =
  totalJinaRequests :: nat
  world :: 'w

text \<open>
  Where a content fetch can wait. \<open>fetchJinaContentWithRetry\<close> suspends at its initial
  delay, at the per-URL rate limit (when it is enabled), at the request and at the delay
  before a retry; \<open>retries\<close> is the value of its loop variable. A fetch that has
  resolved or rejected is settled.
\<close>

datatype fetch_phase =
    InitialDelay
  | Limiting nat
  | Requesting nat
  | RetryDelay nat
  | Settled "exn + jsstring"

text \<open>
  The outside capabilities and the configuration. Every capability takes the state and
  returns the new one: while a call is awaited the timer of
  \<open>setInterval(() => { totalJinaRequests = 0 }, 60000)\<close> may fire and other requests may
  run, so a capability may change the counter too. \<open>delay\<close> is an awaited \<open>setTimeout\<close>.
  \<open>schedule\<close> is the event loop among the fetches of one batch, which wait at the same
  time: from the state and the phases of the fetches it names the fetch that is resumed
  next. The language model is asked with a prompt built from the arguments listed; the
  wording of the prompt is not modelled. \<open>CONFIG.rateLimits\<close> has \<open>enabled: false\<close> and
  \<open>contentFetch: 20\<close> in the source; both are parameters here.
\<close>

record 'w env =
  rateLimits_enabled :: bool
  rateLimits_contentFetch :: nat
  searchRatelimit_limit :: "jsstring \<Rightarrow> 'w state \<Rightarrow> (exn + bool) \<times> 'w state"
  fetchContentRatelimit_limit :: "jsstring \<Rightarrow> 'w state \<Rightarrow> (exn + bool) \<times> 'w state"
  search :: "jsstring \<Rightarrow> 'w state \<Rightarrow> (exn + DuckDuckResult list) \<times> 'w state"
  axios_get :: "jsstring \<Rightarrow> 'w state \<Rightarrow> (exn + jsstring) \<times> 'w state"
  delay :: "'w state \<Rightarrow> 'w state"
  schedule :: "'w state \<Rightarrow> fetch_phase list \<Rightarrow> nat"
  generateContent_queries ::
    "jsstring \<Rightarrow> int \<Rightarrow> jsstring list \<Rightarrow> 'w state \<Rightarrow> (exn + jsstring) \<times> 'w state"
  generateContent_learnings ::
    "jsstring \<Rightarrow> jsstring list \<Rightarrow> int \<Rightarrow> int \<Rightarrow> 'w state \<Rightarrow> (exn + jsstring) \<times> 'w state"

section \<open>Reading the language model's answer\<close>

text \<open>\<open>xs.slice(0, e)\<close> for an integer \<open>e\<close>: a negative \<open>e\<close> counts from the end.\<close>

definition slice0 :: "'a list \<Rightarrow> int \<Rightarrow> 'a list" where
  "slice0 xs e = (if e < 0 then take (nat (int (length xs) + e)) xs else take (nat e) xs)"

text \<open>Reading a property of a parsed value: \<open>None\<close> is \<open>undefined\<close>.\<close>

fun get_prop :: "json \<Rightarrow> jsstring \<Rightarrow> json option" where
  "get_prop (JObject ms) k = map_of (rev ms) k"
| "get_prop v k = None"

text \<open>
  \<open>/```(?:json)?\s*(\{[\s\S]*?\})\s*```/\<close>. After the opening brace the lazy body ends at
  the first closing brace that is followed, after white space, by a fence.
\<close>

fun lazy_close :: "jsstring \<Rightarrow> jsstring option" where
  "lazy_close [] = None"
| "lazy_close (c # cs) =
     (if c = 125 \<and> starts_with (js ''```'') (dropWhile is_space cs) then Some [c]
      else map_option ((#) c) (lazy_close cs))"

definition match_fence_at :: "jsstring \<Rightarrow> jsstring option" where
  "match_fence_at s =
     (if starts_with (js ''```'') s then
        (let r = drop 3 s;
             r1 = (if starts_with (js ''json'') r then drop 4 r else r)
         in case dropWhile is_space r1 of
              [] \<Rightarrow> None
            | c # cs \<Rightarrow> if c = 123 then map_option ((#) c) (lazy_close cs) else None)
      else None)"

fun extract_fenced :: "jsstring \<Rightarrow> jsstring option" where
  "extract_fenced [] = None"
| "extract_fenced (c # cs) =
     (case match_fence_at (c # cs) of
        Some m \<Rightarrow> Some m
      | None \<Rightarrow> extract_fenced cs)"

text \<open>\<open>/(\{[\s\S]*\})/\<close>: from the first opening brace to the last closing brace after it.\<close>

definition extract_braces :: "jsstring \<Rightarrow> jsstring option" where
  "extract_braces s =
     (let r = dropWhile (\<lambda>c. c \<noteq> 123) s;
          t = rev (dropWhile (\<lambda>c. c \<noteq> 125) (rev r))
      in if t = [] then None else Some t)"

text \<open>\<open>response.match(fenced) || response.match(braces)\<close>, then \<open>jsonMatch[1]\<close>.\<close>

definition extract_json :: "jsstring \<Rightarrow> jsstring option" where
  "extract_json response =
     (case extract_fenced response of
        Some m \<Rightarrow> Some m
      | None \<Rightarrow> extract_braces response)"

text \<open>
  \<open>generateSerpQueries\<close>. The call of the language model is outside the \<open>try\<close>, so its
  error is thrown on as it is; everything thrown inside the \<open>try\<close> becomes
  \<open>Failed to generate search queries\<close>. The result is the slice of the parsed
  \<open>queries\<close> array, as parsed.
\<close>

definition parse_queries :: "jsstring \<Rightarrow> int \<Rightarrow> exn + json list" where
  "parse_queries response numQueries =
     (case extract_json response of
        None \<Rightarrow> Inl (Error (js ''Failed to generate search queries''))
      | Some jsonStr \<Rightarrow>
          (case JSON_parse jsonStr of
             None \<Rightarrow> Inl (Error (js ''Failed to generate search queries''))
           | Some parsed \<Rightarrow>
               (case get_prop parsed (js ''queries'') of
                  Some (JArray qs) \<Rightarrow> Inr (slice0 qs numQueries)
                | _ \<Rightarrow> Inl (Error (js ''Failed to generate search queries'')))))"

definition generateSerpQueries ::
  "'w env \<Rightarrow> jsstring \<Rightarrow> int \<Rightarrow> jsstring list \<Rightarrow> 'w state \<Rightarrow> (exn + json list) \<times> 'w state" where
  "generateSerpQueries e q numQueries ls s =
     (case generateContent_queries e q numQueries ls s of
        (Inl err, s1) \<Rightarrow> (Inl err, s1)
      | (Inr response, s1) \<Rightarrow> (parse_queries response numQueries, s1))"


text \<open>The declared types: an element of \<open>SerpQuery[]\<close> and an element of \<open>string[]\<close>.\<close>

definition as_SerpQuery :: "json \<Rightarrow> SerpQuery option" where
  "as_SerpQuery j =
     (case (get_prop j (js ''query''), get_prop j (js ''researchGoal'')) of
        (Some (JString t), Some (JString g)) \<Rightarrow> Some \<lparr>query = t, researchGoal = g\<rparr>
      | _ \<Rightarrow> None)"

fun as_string :: "json \<Rightarrow> jsstring option" where
  "as_string (JString t) = Some t"
| "as_string v = None"

fun all_some :: "'a option list \<Rightarrow> 'a list option" where
  "all_some [] = Some []"
| "all_some (None # xs) = None"
| "all_some (Some x # xs) = map_option ((#) x) (all_some xs)"

text \<open>
  \<open>processSerpResult\<close>, with the same shape; \<open>compact\<close> drops the empty contents.
\<close>

definition parse_learnings :: "jsstring \<Rightarrow> int \<Rightarrow> int \<Rightarrow> exn + (json list \<times> json list)" where
  "parse_learnings response numLearnings numFollowUpQuestions =
     (case extract_json response of
        None \<Rightarrow> Inl (Error (js ''Failed to process search results''))
      | Some jsonStr \<Rightarrow>
          (case JSON_parse jsonStr of
             None \<Rightarrow> Inl (Error (js ''Failed to process search results''))
           | Some parsed \<Rightarrow>
               (case (get_prop parsed (js ''learnings''), get_prop parsed (js ''followUpQuestions'')) of
                  (Some (JArray ls), Some (JArray fs)) \<Rightarrow>
                    Inr (slice0 ls numLearnings, slice0 fs numFollowUpQuestions)
                | _ \<Rightarrow> Inl (Error (js ''Failed to process search results'')))))"

definition processSerpResult ::
  "'w env \<Rightarrow> jsstring \<Rightarrow> FetchedPage list \<Rightarrow> int \<Rightarrow> int \<Rightarrow> 'w state \<Rightarrow>
     (exn + (json list \<times> json list)) \<times> 'w state" where
  "processSerpResult e q data numLearnings numFollowUpQuestions s =
     (let contents = filter (\<lambda>c. c \<noteq> []) (map markdown data)
      in case generateContent_learnings e q contents numLearnings numFollowUpQuestions s of
           (Inl err, s1) \<Rightarrow> (Inl err, s1)
         | (Inr response, s1) \<Rightarrow>
             (parse_learnings response numLearnings numFollowUpQuestions, s1))"

section \<open>Search and content fetch\<close>

text \<open>\<open>safeDuckDuckSearch\<close>: the per-query rate limit when it is enabled, the pacing
  delay, the search.\<close>

definition safeDuckDuckSearch ::
  "'w env \<Rightarrow> jsstring \<Rightarrow> 'w state \<Rightarrow> (exn + DuckDuckResult list) \<times> 'w state" where
  "safeDuckDuckSearch e q s =
     (if rateLimits_enabled e then
        (case searchRatelimit_limit e q s of
           (Inl err, s1) \<Rightarrow> (Inl err, s1)
         | (Inr success, s1) \<Rightarrow>
             if \<not> success then (Inl (Error (js ''DuckDuckGo search rate limit exceeded'')), s1)
             else search e q (delay e s1))
      else search e q (delay e s))"

text \<open>
  \<open>fetchJinaContent\<close>: the global counter is tested and incremented before anything is
  awaited; then the per-URL rate limit when it is enabled; then the request, whose
  status 429 becomes the rate-limit error.
\<close>

definition fetchJinaContent ::
  "'w env \<Rightarrow> jsstring \<Rightarrow> 'w state \<Rightarrow> (exn + jsstring) \<times> 'w state" where
  "fetchJinaContent e u s =
     (if totalJinaRequests s \<ge> rateLimits_contentFetch e
      then (Inl (Error (js ''Global Jina rate limit exceeded'')), s)
      else
        (let s0 = s\<lparr>totalJinaRequests := totalJinaRequests s + 1\<rparr>;
             (allowed, s1) =
               (if rateLimits_enabled e then fetchContentRatelimit_limit e u s0
                else (Inr True, s0))
         in case allowed of
              Inl err \<Rightarrow> (Inl err, s1)
            | Inr success \<Rightarrow>
                if \<not> success
                then (Inl (Error (js ''Jina AI content fetch rate limit exceeded'')), s1)
                else
                  (case axios_get e u s1 of
                     (Inr data, s2) \<Rightarrow> (Inr data, s2)
                   | (Inl err, s2) \<Rightarrow>
                       (case err of
                          AxiosError st m \<Rightarrow>
                            if st = Some 429
                            then (Inl (Error (js ''Jina AI content fetch rate limit exceeded'')), s2)
                            else (Inl err, s2)
                        | _ \<Rightarrow> (Inl err, s2)))))"

text \<open>
  The \<open>while (retries < maxRetries)\<close> loop of \<open>executeDuckDuckSearchWithRetry\<close>
  (\<open>maxRetries = 3\<close>): a result is returned, a rate-limit error is followed by a delay and
  the next round, any other error is thrown on, and after the last round a new error is
  thrown.
\<close>

function search_retry_loop ::
  "'w env \<Rightarrow> jsstring \<Rightarrow> nat \<Rightarrow> 'w state \<Rightarrow> (exn + DuckDuckResult list) \<times> 'w state" where
  "search_retry_loop e q retries s =
     (if retries < 3 then
        (case safeDuckDuckSearch e q s of
           (Inr r, s1) \<Rightarrow> (Inr r, s1)
         | (Inl err, s1) \<Rightarrow>
             if is_rate_limit err then search_retry_loop e q (retries + 1) (delay e s1)
             else (Inl err, s1))
      else (Inl (Error (js ''DuckDuckGo search failed after 3 retries'')), s))"
  by pat_completeness auto
termination
  by (relation "measure (\<lambda>(e, q, retries, s). 3 - retries)") auto

definition executeDuckDuckSearchWithRetry ::
  "'w env \<Rightarrow> jsstring \<Rightarrow> 'w state \<Rightarrow> (exn + DuckDuckResult list) \<times> 'w state" where
  "executeDuckDuckSearchWithRetry e q s = search_retry_loop e q 0 s"

text \<open>The loop of \<open>fetchJinaContentWithRetry\<close> (\<open>maxRetries = 2\<close>), after its initial delay.\<close>

function fetch_retry_loop ::
  "'w env \<Rightarrow> jsstring \<Rightarrow> nat \<Rightarrow> 'w state \<Rightarrow> (exn + jsstring) \<times> 'w state" where
  "fetch_retry_loop e u retries s =
     (if retries < 2 then
        (case fetchJinaContent e u s of
           (Inr r, s1) \<Rightarrow> (Inr r, s1)
         | (Inl err, s1) \<Rightarrow>
             if is_rate_limit err then fetch_retry_loop e u (retries + 1) (delay e s1)
             else (Inl err, s1))
      else (Inl (Error (js ''Jina content fetch failed after 2 retries'')), s))"
  by pat_completeness auto
termination
  by (relation "measure (\<lambda>(e, u, retries, s). 2 - retries)") auto

definition fetchJinaContentWithRetry ::
  "'w env \<Rightarrow> jsstring \<Rightarrow> 'w state \<Rightarrow> (exn + jsstring) \<times> 'w state" where
  "fetchJinaContentWithRetry e u s = fetch_retry_loop e u 0 (delay e s)"

text \<open>
  The batch of one branch: \<open>limitedResults.map(async ...)\<close> starts a fetch for every
  result at once, \<open>Promise.all\<close> waits for all of them, and the filter drops the \<open>null\<close>
  of a failed fetch. Every fetch is \<open>fetchJinaContentWithRetry\<close> on its own URL, and
  all of them share the counter and the outside world. A fetch runs without interruption
  from one \<open>await\<close> to the next, so the batch is a set of fetches, each waiting in its
  phase, of which one at a time is resumed and runs to its next phase. The delays are
  random and the requests take their time: which fetch is resumed next is not decided by
  the program, and is the choice of \<open>schedule\<close> here. Lemma \<open>single_fetch\<close> shows that
  a fetch alone in its batch is \<open>fetchJinaContentWithRetry\<close>.

  \<open>after_error\<close> is the \<open>catch\<close> of the retry loop: a rate-limit error leads to the
  retry delay, any other error is thrown and settles the fetch.
\<close>

definition after_error :: "nat \<Rightarrow> exn \<Rightarrow> fetch_phase" where
  "after_error retries err = (if is_rate_limit err then RetryDelay retries else Settled (Inl err))"

text \<open>
  The code between a delay and the next \<open>await\<close>: the test of the loop, then the test
  and the increment of the global counter with which \<open>fetchJinaContent\<close> begins.
\<close>

definition start_attempt :: "'w env \<Rightarrow> nat \<Rightarrow> 'w state \<Rightarrow> fetch_phase \<times> 'w state" where
  "start_attempt e retries s =
     (if retries < 2 then
        (if totalJinaRequests s \<ge> rateLimits_contentFetch e
         then (after_error retries (Error (js ''Global Jina rate limit exceeded'')), s)
         else
           (let s0 = s\<lparr>totalJinaRequests := totalJinaRequests s + 1\<rparr>
            in if rateLimits_enabled e then (Limiting retries, s0) else (Requesting retries, s0)))
      else (Settled (Inl (Error (js ''Jina content fetch failed after 2 retries''))), s))"

text \<open>What a fetch of the URL \<open>u\<close> does when it is resumed in a phase.\<close>

fun fetch_step :: "'w env \<Rightarrow> jsstring \<Rightarrow> fetch_phase \<Rightarrow> 'w state \<Rightarrow> fetch_phase \<times> 'w state" where
  "fetch_step e u InitialDelay s = start_attempt e 0 (delay e s)"
| "fetch_step e u (Limiting retries) s =
     (case fetchContentRatelimit_limit e u s of
        (Inl err, s1) \<Rightarrow> (after_error retries err, s1)
      | (Inr success, s1) \<Rightarrow>
          if \<not> success
          then (after_error retries (Error (js ''Jina AI content fetch rate limit exceeded'')), s1)
          else (Requesting retries, s1))"
| "fetch_step e u (Requesting retries) s =
     (case axios_get e u s of
        (Inr data, s1) \<Rightarrow> (Settled (Inr data), s1)
      | (Inl err, s1) \<Rightarrow>
          (case err of
             AxiosError st m \<Rightarrow>
               if st = Some 429
               then (after_error retries (Error (js ''Jina AI content fetch rate limit exceeded'')), s1)
               else (after_error retries err, s1)
           | _ \<Rightarrow> (after_error retries err, s1)))"
| "fetch_step e u (RetryDelay retries) s = start_attempt e (retries + 1) (delay e s)"
| "fetch_step e u (Settled r) s = (Settled r, s)"

fun is_settled :: "fetch_phase \<Rightarrow> bool" where
  "is_settled (Settled r) = True"
| "is_settled phase = False"

text \<open>
  The fetch that runs next: the one \<open>schedule\<close> names when that is a fetch of the batch
  that has not settled, and the first that has not settled otherwise.
\<close>

definition next_task :: "'w env \<Rightarrow> 'w state \<Rightarrow> (DuckDuckResult \<times> fetch_phase) list \<Rightarrow> nat" where
  "next_task e s tasks =
     (let i = schedule e s (map snd tasks)
      in if i < length tasks \<and> \<not> is_settled (snd (tasks ! i)) then i
         else length (takeWhile (\<lambda>t. is_settled (snd t)) tasks))"

text \<open>A bound on the steps a fetch still takes, for the termination of the batch.\<close>

fun steps_left :: "fetch_phase \<Rightarrow> nat" where
  "steps_left InitialDelay = 10"
| "steps_left (Limiting retries) = 3 * (2 - retries) + 3"
| "steps_left (Requesting retries) = 3 * (2 - retries) + 2"
| "steps_left (RetryDelay retries) = 3 * (2 - retries) + 1"
| "steps_left (Settled r) = 0"

text \<open>The batch runs until every fetch has settled.\<close>

function run_batch ::
  "'w env \<Rightarrow> (DuckDuckResult \<times> fetch_phase) list \<Rightarrow> 'w state \<Rightarrow>
     (DuckDuckResult \<times> fetch_phase) list \<times> 'w state" where
  "run_batch e tasks s =
     (if list_all (\<lambda>t. is_settled (snd t)) tasks then (tasks, s)
      else
        (let i = next_task e s tasks;
             r = fst (tasks ! i)
         in case fetch_step e (url r) (snd (tasks ! i)) s of
              (phase, s1) \<Rightarrow> run_batch e (tasks[i := (r, phase)]) s1))"
  by pat_completeness auto
termination
proof (relation "measure (\<lambda>(e, tasks, s). sum_list (map (\<lambda>t. steps_left (snd t)) tasks))")
  show "wf (measure (\<lambda>(e, tasks, s). sum_list (map (\<lambda>t. steps_left (snd t)) tasks)))"
    by simp
next
  fix e :: "'w env" and tasks :: "(DuckDuckResult \<times> fetch_phase) list" and s :: "'w state"
    and i r phase s1
  assume open_task: "\<not> list_all (\<lambda>t. is_settled (snd t)) tasks"
    and i: "i = next_task e s tasks"
    and r: "r = fst (tasks ! i)"
    and step: "(phase, s1) = fetch_step e (url r) (snd (tasks ! i)) s"
  have after_limiting: "steps_left (after_error n err) < steps_left (Limiting n)" for n err
    by (simp add: after_error_def)
  have after_requesting: "steps_left (after_error n err) < steps_left (Requesting n)" for n err
    by (simp add: after_error_def)
  have requesting: "steps_left (Requesting n) < steps_left (Limiting n)" for n
    by simp
  have settled: "steps_left (Settled x) < steps_left (Requesting n)" for n x
    by simp
  have start: "steps_left (fst (start_attempt e 0 s')) < steps_left InitialDelay" for s'
    by (simp add: start_attempt_def after_error_def Let_def)
  have start_next: "steps_left (fst (start_attempt e (n + 1) s')) < steps_left (RetryDelay n)" for n s'
    by (cases "n = 0") (simp_all add: start_attempt_def after_error_def Let_def)
  have decreases: "steps_left (fst (fetch_step e u ph s)) < steps_left ph"
    if "\<not> is_settled ph" for u ph
    using that
  proof (cases ph)
    case InitialDelay
    then show ?thesis using start [of "delay e s"] by simp
  next
    case (Limiting n)
    then show ?thesis
      by (auto simp del: steps_left.simps simp add: after_limiting requesting
               split: prod.splits sum.splits)
  next
    case (Requesting n)
    then show ?thesis
      by (auto simp del: steps_left.simps simp add: after_requesting settled
               split: prod.splits sum.splits exn.splits)
  next
    case (RetryDelay n)
    then show ?thesis using start_next [of n "delay e s"] by simp
  qed simp
  have first: "length (takeWhile (\<lambda>t. is_settled (snd t)) tasks) < length tasks"
    using open_task by (induction tasks) auto
  have first_open: "\<not> is_settled (snd (tasks ! length (takeWhile (\<lambda>t. is_settled (snd t)) tasks)))"
    using first nth_length_takeWhile [of "\<lambda>t. is_settled (snd t)" tasks] by blast
  have bound: "i < length tasks" and unsettled: "\<not> is_settled (snd (tasks ! i))"
    using first first_open unfolding i next_task_def Let_def by (auto split: if_splits)
  have phase: "phase = fst (fetch_step e (url r) (snd (tasks ! i)) s)"
    using step by (metis fst_conv)
  have smaller: "steps_left phase < steps_left (snd (tasks ! i))"
    unfolding phase by (rule decreases [OF unsettled])
  have "sum_list (map (\<lambda>t. steps_left (snd t)) (tasks[i := (r, phase)]))
          < sum_list (map (\<lambda>t. steps_left (snd t)) tasks)"
    using bound smaller
  proof (induction tasks arbitrary: i)
    case Nil
    then show ?case by simp
  next
    case (Cons t ts)
    then show ?case by (cases i) (auto simp: add_less_le_mono)
  qed
  then show "((e, tasks[i := (r, phase)], s1), (e, tasks, s)) \<in>
               measure (\<lambda>(e, tasks, s). sum_list (map (\<lambda>t. steps_left (snd t)) tasks))"
    by simp
qed

declare run_batch.simps [simp del]


fun fetched_pages :: "(DuckDuckResult \<times> fetch_phase) list \<Rightarrow> FetchedPage list" where
  "fetched_pages [] = []"
| "fetched_pages ((r, Settled (Inr md)) # tasks) =
     \<lparr>page_url = url r, markdown = md\<rparr> # fetched_pages tasks"
| "fetched_pages (t # tasks) = fetched_pages tasks"

definition fetch_contents ::
  "'w env \<Rightarrow> DuckDuckResult list \<Rightarrow> 'w state \<Rightarrow> FetchedPage list \<times> 'w state" where
  "fetch_contents e rs s =
     (case run_batch e (map (\<lambda>r. (r, InitialDelay)) rs) s of
        (tasks, s1) \<Rightarrow> (fetched_pages tasks, s1))"

section \<open>The recursive orchestrator\<close>

text \<open>
  \<open>breadth\<close> and \<open>depth\<close> are JavaScript numbers, which the route takes from the body
  of the request as they come. A finite number is modelled by the rational it stands
  for; \<open>Infinity\<close> and \<open>NaN\<close> are not modelled. The program computes three things with
  them.
  \<^item> \<open>xs.slice(0, n)\<close> and the number of items asked of the language model: \<open>n\<close> is
    truncated toward zero.
  \<^item> \<open>Math.ceil(breadth / 2)\<close>: the half is exact, except that the half of the
    smallest positive number, \<open>2^(-1074)\<close>, is rounded to 0.
  \<^item> \<open>depth - 1\<close>: exact when \<open>1 \<le> depth \<le> 2^53\<close>. Below 1 the difference may be
    rounded, but it is not positive, and only its sign is used. Above \<open>2^53\<close> it is
    rounded (\<open>1e16 - 1\<close> is \<open>1e16\<close> again): the model stops where the program would
    make a recursive call with such a difference.
\<close>

definition to_integer :: "rat \<Rightarrow> int" where
  "to_integer x = (if 0 \<le> x then \<lfloor>x\<rfloor> else \<lceil>x\<rceil>)"

definition ceil_half :: "rat \<Rightarrow> rat" where
  "ceil_half b = (if b = 1 / 2 ^ 1074 then 0 else of_int \<lceil>b / 2\<rceil>)"

definition max_exact :: rat where
  "max_exact = 9007199254740992"

text \<open>\<open>xs.join(sep)\<close>.\<close>

fun join :: "jsstring \<Rightarrow> jsstring list \<Rightarrow> jsstring" where
  "join sep [] = []"
| "join sep [x] = x"
| "join sep (x # y # ys) = x @ sep @ join sep (y # ys)"

text \<open>The template of the next query, with its line breaks and indentation, trimmed.\<close>

definition nextQuery :: "jsstring \<Rightarrow> jsstring list \<Rightarrow> jsstring" where
  "nextQuery goal followUps =
     trim (10 # replicate 14 32 @ js ''Previous research goal: '' @ goal @
           10 # replicate 14 32 @ js ''Follow-up research directions: '' @ join [10] followUps @
           10 # replicate 12 32)"

definition errorMsg :: "jsstring \<Rightarrow> exn \<Rightarrow> jsstring" where
  "errorMsg q err = js ''Failed to process query \"'' @ q @ js ''\": '' @ message_or_unknown err"

text \<open>What the \<open>catch\<close> of a branch returns.\<close>

definition failed_branch :: "jsstring \<Rightarrow> exn \<Rightarrow> ResearchResult" where
  "failed_branch q err = \<lparr>learnings = [], visitedUrls = [], errors = [errorMsg q err]\<rparr>"

text \<open>\<open>[...new Set(xs)]\<close> on strings: the first occurrence of each value, in order.\<close>

fun set_spread :: "jsstring list \<Rightarrow> jsstring list" where
  "set_spread [] = []"
| "set_spread (x # xs) = x # filter (\<lambda>y. y \<noteq> x) (set_spread xs)"

text \<open>
  The aggregation at the end of \<open>deepResearch\<close>. \<open>pushed\<close> is the local array
  \<open>errors\<close>, to which the \<open>catch\<close> of every failed branch has pushed its message.
\<close>

definition aggregate :: "jsstring list \<Rightarrow> ResearchResult list \<Rightarrow> ResearchResult" where
  "aggregate pushed results =
     \<lparr>learnings = set_spread (concat (map learnings results)),
      visitedUrls = set_spread (concat (map visitedUrls results)),
      errors = pushed @ concat (map errors results)\<rparr>"

text \<open>
  How a call of the orchestrator ends: it returns, it throws (its promise rejects), or the
  model does not follow the program further. \<open>IllTyped\<close>: a language-model response
  held a value outside its declared type (\<open>SerpQuery[]\<close>, \<open>string[]\<close>), which the source
  casts unchecked. \<open>OutOfRange\<close>: a recursive call with a depth above \<open>2^53\<close>.
\<close>

datatype 'a outcome = Returned 'a | Thrown exn | IllTyped | OutOfRange

text \<open>
  The body of one branch up to \<open>if (newDepth > 0)\<close>: search, the first five results,
  their contents, the summary. It returns the follow-up questions, \<open>allLearnings\<close> and
  \<open>allUrls\<close>. Whatever is thrown here is caught by the \<open>catch\<close> of the branch.
\<close>

definition research_step ::
  "'w env \<Rightarrow> rat \<Rightarrow> jsstring list \<Rightarrow> jsstring list \<Rightarrow> SerpQuery \<Rightarrow> 'w state \<Rightarrow>
     (jsstring list \<times> jsstring list \<times> jsstring list) outcome \<times> 'w state" where
  "research_step e breadth ls us serpQuery s =
     (case executeDuckDuckSearchWithRetry e (query serpQuery) s of
        (Inl err, s1) \<Rightarrow> (Thrown err, s1)
      | (Inr searchResults, s1) \<Rightarrow>
          (let limitedResults = take 5 searchResults
           in case fetch_contents e limitedResults s1 of
                (contents, s2) \<Rightarrow>
                  (let newUrls = map page_url contents;
                       newBreadth = ceil_half breadth
                   in case processSerpResult e (query serpQuery) contents 3 (to_integer newBreadth) s2 of
                        (Inl err, s3) \<Rightarrow> (Thrown err, s3)
                      | (Inr (rawLearnings, rawFollowUps), s3) \<Rightarrow>
                          (case (all_some (map as_string rawLearnings),
                                 all_some (map as_string rawFollowUps)) of
                             (Some newLs, Some followUps) \<Rightarrow>
                               (Returned (followUps, ls @ newLs, us @ newUrls), s3)
                           | _ \<Rightarrow> (IllTyped, s3)))))"

text \<open>
  \<open>deepResearch\<close>, the \<open>Promise.all\<close> over its branches and one branch.
  \<^item> \<open>ConcurrencyLimit\<close> is 1, so \<open>pLimit\<close> runs the branches one after the other, in
    the order of the queries.
  \<^item> A branch returns its result and what its \<open>catch\<close> pushed to the local array
    \<open>errors\<close>.
  \<^item> The recursive call is \<open>return deepResearch(...)\<close> without \<open>await\<close>, inside an
    \<open>async\<close> function: when the inner call rejects, the \<open>catch\<close> of the branch does
    not run, the promise of the branch rejects, \<open>Promise.all\<close> rejects and the outer
    \<open>deepResearch\<close> rejects with the same error. The state returned then is the state
    at the rejection (the source lets the queued branches run on; section
    \<open>The calls of the recursion\<close> follows them).
\<close>

function deepResearch ::
    "'w env \<Rightarrow> jsstring \<Rightarrow> rat \<Rightarrow> rat \<Rightarrow> jsstring list \<Rightarrow> jsstring list \<Rightarrow> 'w state \<Rightarrow>
       ResearchResult outcome \<times> 'w state"
  and runBranches ::
    "'w env \<Rightarrow> rat \<Rightarrow> rat \<Rightarrow> jsstring list \<Rightarrow> jsstring list \<Rightarrow> SerpQuery list \<Rightarrow> 'w state \<Rightarrow>
       (ResearchResult list \<times> jsstring list) outcome \<times> 'w state"
  and branch ::
    "'w env \<Rightarrow> rat \<Rightarrow> rat \<Rightarrow> jsstring list \<Rightarrow> jsstring list \<Rightarrow> SerpQuery \<Rightarrow> 'w state \<Rightarrow>
       (ResearchResult \<times> jsstring list) outcome \<times> 'w state"
where
  "deepResearch e q breadth depth ls us s =
     (case generateSerpQueries e q (to_integer breadth) ls s of
        (Inl err, s1) \<Rightarrow> (Thrown (Error (js ''Failed to generate initial search queries'')), s1)
      | (Inr qs, s1) \<Rightarrow>
          (case all_some (map as_SerpQuery qs) of
             None \<Rightarrow> (IllTyped, s1)
           | Some serpQueries \<Rightarrow>
               (case runBranches e breadth depth ls us serpQueries s1 of
                  (Returned (results, pushed), s2) \<Rightarrow> (Returned (aggregate pushed results), s2)
                | (Thrown err, s2) \<Rightarrow> (Thrown err, s2)
                | (IllTyped, s2) \<Rightarrow> (IllTyped, s2)
                | (OutOfRange, s2) \<Rightarrow> (OutOfRange, s2))))"
| "runBranches e breadth depth ls us [] s = (Returned ([], []), s)"
| "runBranches e breadth depth ls us (serpQuery # rest) s =
     (case branch e breadth depth ls us serpQuery s of
        (Returned (r, p), s1) \<Rightarrow>
          (case runBranches e breadth depth ls us rest s1 of
             (Returned (rs, ps), s2) \<Rightarrow> (Returned (r # rs, p @ ps), s2)
           | (Thrown err, s2) \<Rightarrow> (Thrown err, s2)
           | (IllTyped, s2) \<Rightarrow> (IllTyped, s2)
           | (OutOfRange, s2) \<Rightarrow> (OutOfRange, s2))
      | (Thrown err, s1) \<Rightarrow> (Thrown err, s1)
      | (IllTyped, s1) \<Rightarrow> (IllTyped, s1)
      | (OutOfRange, s1) \<Rightarrow> (OutOfRange, s1))"
| "branch e breadth depth ls us serpQuery s =
     (case research_step e breadth ls us serpQuery s of
        (Thrown err, s1) \<Rightarrow>
          (Returned (failed_branch (query serpQuery) err, [errorMsg (query serpQuery) err]), s1)
      | (IllTyped, s1) \<Rightarrow> (IllTyped, s1)
      | (OutOfRange, s1) \<Rightarrow> (OutOfRange, s1)
      | (Returned (followUps, allLearnings, allUrls), s1) \<Rightarrow>
          if depth - 1 > 0 then
            if depth > max_exact then (OutOfRange, s1)
            else
              (case deepResearch e (nextQuery (researchGoal serpQuery) followUps)
                      (ceil_half breadth) (depth - 1) allLearnings allUrls s1 of
                 (Returned r, s2) \<Rightarrow> (Returned (r, []), s2)
               | (Thrown err, s2) \<Rightarrow> (Thrown err, s2)
               | (IllTyped, s2) \<Rightarrow> (IllTyped, s2)
               | (OutOfRange, s2) \<Rightarrow> (OutOfRange, s2))
          else
            (Returned (\<lparr>learnings = allLearnings, visitedUrls = allUrls, errors = []\<rparr>, []), s1))"
  by pat_completeness auto
termination
  by (relation "measures
        [\<lambda>x. case x of
                Inl (e, q, breadth, depth, ls, us, s) \<Rightarrow> nat \<lceil>depth\<rceil>
              | Inr (Inl (e, breadth, depth, ls, us, qs, s)) \<Rightarrow> nat \<lceil>depth\<rceil>
              | Inr (Inr (e, breadth, depth, ls, us, serpQuery, s)) \<Rightarrow> nat \<lceil>depth\<rceil>,
         \<lambda>x. case x of Inl a \<Rightarrow> 1 | Inr b \<Rightarrow> 0,
         \<lambda>x. case x of
                Inl a \<Rightarrow> 0
              | Inr (Inl (e, breadth, depth, ls, us, qs, s)) \<Rightarrow> Suc (length qs)
              | Inr (Inr c) \<Rightarrow> 0]") (auto simp: ceiling_diff_one)

text \<open>The two equations without a pattern are unfolded by hand in the proofs.\<close>

declare deepResearch.simps [simp del] branch.simps [simp del]

section \<open>The route handler\<close>

text \<open>
  The request: a body that is not JSON, or the fields \<open>query\<close>, \<open>searchDepth\<close> and
  \<open>searchBreadth\<close> of the body, each possibly absent.
\<close>

datatype request = InvalidRequest | Body "jsstring option" "rat option" "rat option"

text \<open>An entry of \<open>webPages.value\<close>; its \<open>id\<close>, which holds \<open>Date.now()\<close>, is left out.\<close>

record webPage =
  wp_url :: jsstring
  wp_name :: jsstring
  snippet :: jsstring

datatype response_body =
    ErrorBody jsstring
  | ResultBody "webPage list" "jsstring list" "jsstring list"

record response =
  status :: nat
  body :: response_body

text \<open>\<open>learnings[index] || 'No learning available'\<close>.\<close>

definition snippet_at :: "jsstring list \<Rightarrow> nat \<Rightarrow> jsstring" where
  "snippet_at ls i = (if i < length ls \<and> ls ! i \<noteq> [] then ls ! i else js ''No learning available'')"

definition webPages_value :: "jsstring list \<Rightarrow> jsstring list \<Rightarrow> webPage list" where
  "webPages_value urls ls =
     map (\<lambda>(u, i). \<lparr>wp_url = u, wp_name = u, snippet = snippet_at ls i\<rparr>) (zip urls [0 ..< length urls])"

text \<open>
  The inner \<open>try\<close> of \<open>POST\<close>. \<open>NextResponse.json(response)\<close> has status 200. In the
  \<open>catch\<close> the variables \<open>learnings\<close> and \<open>visitedUrls\<close> still hold their initial
  empty arrays, since they are assigned only after \<open>deepResearch\<close> has returned.
\<close>

definition research_response ::
  "'w env \<Rightarrow> jsstring \<Rightarrow> rat \<Rightarrow> rat \<Rightarrow> 'w state \<Rightarrow> response outcome \<times> 'w state" where
  "research_response e q searchDepth searchBreadth s =
     (case deepResearch e q searchBreadth searchDepth [] [] s of
        (Returned researchResult, s1) \<Rightarrow>
          (Returned \<lparr>status = 200,
                     body = ResultBody
                              (webPages_value (visitedUrls researchResult) (learnings researchResult))
                              (learnings researchResult) (errors researchResult)\<rparr>, s1)
      | (Thrown err, s1) \<Rightarrow>
          (let errorLearnings = []; errorUrls = []
           in if length errorLearnings > 0
              then (Returned \<lparr>status = 200,
                               body = ResultBody (webPages_value errorUrls errorLearnings)
                                        errorLearnings [message_or_unknown err]\<rparr>, s1)
              else (Returned \<lparr>status = 500,
                               body = ErrorBody (js ''Failed to perform deep search'')\<rparr>, s1))
      | (IllTyped, s1) \<Rightarrow> (IllTyped, s1)
      | (OutOfRange, s1) \<Rightarrow> (OutOfRange, s1))"

definition POST :: "'w env \<Rightarrow> request \<Rightarrow> 'w state \<Rightarrow> response outcome \<times> 'w state" where
  "POST e req s =
     (case req of
        InvalidRequest \<Rightarrow> (Returned \<lparr>status = 400, body = ErrorBody (js ''Invalid request'')\<rparr>, s)
      | Body q_opt depth_opt breadth_opt \<Rightarrow>
          (let searchDepth = (case depth_opt of None \<Rightarrow> 2 | Some d \<Rightarrow> d);
               searchBreadth = (case breadth_opt of None \<Rightarrow> 4 | Some b \<Rightarrow> b)
           in case q_opt of
                None \<Rightarrow>
                  (Returned \<lparr>status = 400, body = ErrorBody (js ''Query parameter is required'')\<rparr>, s)
              | Some q \<Rightarrow>
                  if q = [] then
                    (Returned \<lparr>status = 400, body = ErrorBody (js ''Query parameter is required'')\<rparr>, s)
                  else if rateLimits_enabled e then
                    (case searchRatelimit_limit e q s of
                       (Inl err, s1) \<Rightarrow>
                         (Returned \<lparr>status = 400, body = ErrorBody (js ''Invalid request'')\<rparr>, s1)
                     | (Inr success, s1) \<Rightarrow>
                         if \<not> success
                         then (Returned \<lparr>status = 429, body = ErrorBody (js ''Too many requests'')\<rparr>, s1)
                         else research_response e q searchDepth searchBreadth s1)
                  else research_response e q searchDepth searchBreadth s))"

section \<open>The calls of the recursion\<close>

text \<open>
  To speak about the recursive calls, the three functions are written once more with the
  tree of the invocations of \<open>deepResearch\<close> as a second result: \<open>Call breadth depth cs\<close>
  is an invocation with these arguments in which the invocations \<open>cs\<close> were made.

  When a branch rejects, \<open>Promise.all\<close> rejects at once, but \<open>pLimit\<close> goes on with the
  branches still in its queue, and these make recursive calls too. So here the branches
  after a rejected one are run as well and their calls are recorded; the result is the
  first rejection, with the state at that rejection, as in \<open>runBranches\<close>. (In the
  source the branches that run on do so while the callers above go on with their own
  queues; here they run first.) Lemma \<open>traced_erase\<close> shows that the first result is the
  function above.
\<close>

datatype call = Call (call_breadth: rat) (call_depth: rat) (call_children: "call list")

function deepResearch_traced ::
    "'w env \<Rightarrow> jsstring \<Rightarrow> rat \<Rightarrow> rat \<Rightarrow> jsstring list \<Rightarrow> jsstring list \<Rightarrow> 'w state \<Rightarrow>
       (ResearchResult outcome \<times> 'w state) \<times> call"
  and runBranches_traced ::
    "'w env \<Rightarrow> rat \<Rightarrow> rat \<Rightarrow> jsstring list \<Rightarrow> jsstring list \<Rightarrow> SerpQuery list \<Rightarrow> 'w state \<Rightarrow>
       ((ResearchResult list \<times> jsstring list) outcome \<times> 'w state) \<times> call list"
  and branch_traced ::
    "'w env \<Rightarrow> rat \<Rightarrow> rat \<Rightarrow> jsstring list \<Rightarrow> jsstring list \<Rightarrow> SerpQuery \<Rightarrow> 'w state \<Rightarrow>
       ((ResearchResult \<times> jsstring list) outcome \<times> 'w state) \<times> call list"
where
  "deepResearch_traced e q breadth depth ls us s =
     (case generateSerpQueries e q (to_integer breadth) ls s of
        (Inl err, s1) \<Rightarrow>
          ((Thrown (Error (js ''Failed to generate initial search queries'')), s1),
           Call breadth depth [])
      | (Inr qs, s1) \<Rightarrow>
          (case all_some (map as_SerpQuery qs) of
             None \<Rightarrow> ((IllTyped, s1), Call breadth depth [])
           | Some serpQueries \<Rightarrow>
               (case runBranches_traced e breadth depth ls us serpQueries s1 of
                  ((Returned (results, pushed), s2), cs) \<Rightarrow>
                    ((Returned (aggregate pushed results), s2), Call breadth depth cs)
                | ((Thrown err, s2), cs) \<Rightarrow> ((Thrown err, s2), Call breadth depth cs)
                | ((IllTyped, s2), cs) \<Rightarrow> ((IllTyped, s2), Call breadth depth cs)
                | ((OutOfRange, s2), cs) \<Rightarrow> ((OutOfRange, s2), Call breadth depth cs))))"
| "runBranches_traced e breadth depth ls us [] s = ((Returned ([], []), s), [])"
| "runBranches_traced e breadth depth ls us (serpQuery # rest) s =
     (case branch_traced e breadth depth ls us serpQuery s of
        ((out, s1), cs) \<Rightarrow>
          (case runBranches_traced e breadth depth ls us rest s1 of
             ((out', s2), cs') \<Rightarrow>
               (case out of
                  Returned (r, p) \<Rightarrow>
                    (case out' of
                       Returned (rs, ps) \<Rightarrow> ((Returned (r # rs, p @ ps), s2), cs @ cs')
                     | Thrown err \<Rightarrow> ((Thrown err, s2), cs @ cs')
                     | IllTyped \<Rightarrow> ((IllTyped, s2), cs @ cs')
                     | OutOfRange \<Rightarrow> ((OutOfRange, s2), cs @ cs'))
                | Thrown err \<Rightarrow> ((Thrown err, s1), cs @ cs')
                | IllTyped \<Rightarrow> ((IllTyped, s1), cs @ cs')
                | OutOfRange \<Rightarrow> ((OutOfRange, s1), cs @ cs'))))"
| "branch_traced e breadth depth ls us serpQuery s =
     (case research_step e breadth ls us serpQuery s of
        (Thrown err, s1) \<Rightarrow>
          ((Returned (failed_branch (query serpQuery) err, [errorMsg (query serpQuery) err]), s1), [])
      | (IllTyped, s1) \<Rightarrow> ((IllTyped, s1), [])
      | (OutOfRange, s1) \<Rightarrow> ((OutOfRange, s1), [])
      | (Returned (followUps, allLearnings, allUrls), s1) \<Rightarrow>
          if depth - 1 > 0 then
            if depth > max_exact then ((OutOfRange, s1), [])
            else
              (case deepResearch_traced e (nextQuery (researchGoal serpQuery) followUps)
                      (ceil_half breadth) (depth - 1) allLearnings allUrls s1 of
                 ((Returned r, s2), c) \<Rightarrow> ((Returned (r, []), s2), [c])
               | ((Thrown err, s2), c) \<Rightarrow> ((Thrown err, s2), [c])
               | ((IllTyped, s2), c) \<Rightarrow> ((IllTyped, s2), [c])
               | ((OutOfRange, s2), c) \<Rightarrow> ((OutOfRange, s2), [c]))
          else
            ((Returned (\<lparr>learnings = allLearnings, visitedUrls = allUrls, errors = []\<rparr>, []), s1),
             []))"
  by pat_completeness auto
termination
  by (relation "measures
        [\<lambda>x. case x of
                Inl (e, q, breadth, depth, ls, us, s) \<Rightarrow> nat \<lceil>depth\<rceil>
              | Inr (Inl (e, breadth, depth, ls, us, qs, s)) \<Rightarrow> nat \<lceil>depth\<rceil>
              | Inr (Inr (e, breadth, depth, ls, us, serpQuery, s)) \<Rightarrow> nat \<lceil>depth\<rceil>,
         \<lambda>x. case x of Inl a \<Rightarrow> 1 | Inr b \<Rightarrow> 0,
         \<lambda>x. case x of
                Inl a \<Rightarrow> 0
              | Inr (Inl (e, breadth, depth, ls, us, qs, s)) \<Rightarrow> Suc (length qs)
              | Inr (Inr c) \<Rightarrow> 0]") (auto simp: ceiling_diff_one)

declare deepResearch_traced.simps [simp del] branch_traced.simps [simp del]

text \<open>
  Every call made inside an invocation with \<open>breadth\<close> and \<open>depth\<close> has breadth
  \<open>ceil_half breadth\<close> and depth \<open>depth - 1\<close>, which is positive; and so on below.
\<close>

fun calls_ok :: "call \<Rightarrow> bool" where
  "calls_ok (Call b d cs) =
     list_all (\<lambda>c. call_breadth c = ceil_half b \<and> call_depth c = d - 1 \<and> 0 < d - 1 \<and> calls_ok c) cs"

text \<open>The number of levels of the recursion: the invocation itself and the deepest chain below.\<close>

fun levels :: "call \<Rightarrow> nat" where
  "levels (Call b d cs) = Suc (foldr max (map levels cs) 0)"

section \<open>Notions used in the statements\<close>

text \<open>
  Every branch of a level fails: the body of each branch throws, so that its \<open>catch\<close>
  runs. The branches run one after the other, each from the state the one before left.
\<close>

fun all_branches_fail ::
  "'w env \<Rightarrow> rat \<Rightarrow> jsstring list \<Rightarrow> jsstring list \<Rightarrow> SerpQuery list \<Rightarrow> 'w state \<Rightarrow> bool" where
  "all_branches_fail e breadth ls us [] s = True"
| "all_branches_fail e breadth ls us (serpQuery # rest) s =
     (case research_step e breadth ls us serpQuery s of
        (Thrown err, s1) \<Rightarrow> all_branches_fail e breadth ls us rest s1
      | (Returned x, s1) \<Rightarrow> False
      | (IllTyped, s1) \<Rightarrow> False
      | (OutOfRange, s1) \<Rightarrow> False)"

text \<open>What holds of a call made inside an invocation with \<open>breadth\<close> and \<open>depth\<close>.\<close>

definition inner_call :: "rat \<Rightarrow> rat \<Rightarrow> call \<Rightarrow> bool" where
  "inner_call breadth depth c \<longleftrightarrow>
     call_breadth c = ceil_half breadth \<and> call_depth c = depth - 1 \<and> 0 < depth - 1 \<and>
     calls_ok c \<and> levels c \<le> nat \<lceil>depth - 1\<rceil>"

section \<open>Example runs\<close>

text \<open>
  Concrete capabilities, for the examples that follow the theorems. The world is the
  unit type: these capabilities answer the same way every time. \<open>env0\<close> has the
  configuration of the source; the language model proposes three queries and finds one
  learning and one follow-up question in whatever it is shown; every search finds the same
  page, which is fetched without trouble. The fetches of a batch are resumed from their
  initial delays in the order of the list, and then each in turn until it settles.
\<close>

definition state0 :: "unit state" where
  "state0 = \<lparr>totalJinaRequests = 0, world = ()\<rparr>"

definition answer_queries :: jsstring where
  "answer_queries =
     js ''{\"queries\": [{\"query\": \"q1\", \"researchGoal\": \"g1\"}, {\"query\": \"q2\", \"researchGoal\": \"g2\"}, {\"query\": \"q3\", \"researchGoal\": \"g3\"}]}''"

definition answer_learnings :: jsstring where
  "answer_learnings = js ''{\"learnings\": [\"fact\"], \"followUpQuestions\": [\"next?\"]}''"

definition the_page :: DuckDuckResult where
  "the_page = \<lparr>url = js ''http://a'', title = js ''A'', description = js ''about a''\<rparr>"

definition env0 :: "unit env" where
  "env0 =
     \<lparr>rateLimits_enabled = False,
      rateLimits_contentFetch = 20,
      searchRatelimit_limit = (\<lambda>q s. (Inr True, s)),
      fetchContentRatelimit_limit = (\<lambda>u s. (Inr True, s)),
      search = (\<lambda>q s. (Inr [the_page], s)),
      axios_get = (\<lambda>u s. (Inr (js ''page text''), s)),
      delay = (\<lambda>s. s),
      schedule = (\<lambda>s phases. length (takeWhile (\<lambda>phase. phase \<noteq> InitialDelay) phases)),
      generateContent_queries = (\<lambda>q n ls s. (Inr answer_queries, s)),
      generateContent_learnings = (\<lambda>q cs n m s. (Inr answer_learnings, s))\<rparr>"

text \<open>The rate limit is enabled and the search limiter refuses every request.\<close>

definition env_search_limited :: "unit env" where
  "env_search_limited =
     env0\<lparr>rateLimits_enabled := True, searchRatelimit_limit := (\<lambda>q s. (Inr False, s))\<rparr>"

text \<open>The search engine cannot be reached.\<close>

definition env_search_down :: "unit env" where
  "env_search_down = env0\<lparr>search := (\<lambda>q s. (Inl (Error (js ''network down'')), s))\<rparr>"

text \<open>The content service answers every request with status 500.\<close>

definition env_fetch_down :: "unit env" where
  "env_fetch_down =
     env0\<lparr>axios_get :=
            (\<lambda>u s. (Inl (AxiosError (Some 500) (js ''Request failed with status code 500'')), s))\<rparr>"

text \<open>The global counter has reached \<open>CONFIG.rateLimits.contentFetch\<close>.\<close>

definition state_spent :: "unit state" where
  "state_spent = \<lparr>totalJinaRequests = 20, world = ()\<rparr>"

text \<open>Every search finds two pages; the first cannot be fetched, the second can.\<close>

definition bad_page :: DuckDuckResult where
  "bad_page = \<lparr>url = js ''http://bad'', title = js ''B'', description = js ''broken''\<rparr>"


text \<open>
  Every search finds the same two pages; the content service answers the request for the
  first with status 429 and serves the second. In \<open>state_nearly_spent\<close> the global
  counter leaves room for two requests.
\<close>

definition env_throttled :: "unit env" where
  "env_throttled =
     env0\<lparr>search := (\<lambda>q s. (Inr [bad_page, the_page], s)),
          axios_get :=
            (\<lambda>u s. if u = js ''http://bad''
                   then (Inl (AxiosError (Some 429) (js ''Request failed with status code 429'')), s)
                   else (Inr (js ''page text''), s))\<rparr>"

definition state_nearly_spent :: "unit state" where
  "state_nearly_spent = \<lparr>totalJinaRequests = 18, world = ()\<rparr>"

text \<open>The language model proposes queries for the first request only, which has no learnings yet.\<close>

definition env_inner_fails :: "unit env" where
  "env_inner_fails =
     env0\<lparr>generateContent_queries :=
            (\<lambda>q n ls s. if ls = [] then (Inr answer_queries, s)
                        else (Inl (Error (js ''service unavailable'')), s))\<rparr>"

text \<open>The language model answers the summary request without any JSON.\<close>

definition env_no_summary :: "unit env" where
  "env_no_summary =
     env0\<lparr>generateContent_learnings := (\<lambda>q cs n m s. (Inr (js ''I could not read the pages.''), s))\<rparr>"



text \<open>
  A text with one stray quote (before \<open>c\<close>), a raw line break and a trailing comma, and
  the same text corrected by hand: the quote escaped, the line break written \<open>\n\<close>, the
  comma removed.
\<close>

definition broken_json :: jsstring where
  "broken_json = js ''{\"a\": \"b \" c\<newline>d\", \"e\": [1, 2,]}''"

definition corrected_json :: jsstring where
  "corrected_json = js ''{\"a\": \"b '' @ [92, 34] @ js '' c'' @ [92, 110] @ js ''d\", \"e\": [1, 2]}''"

section \<open>The parser never runs out of fuel\<close>

text \<open>
  Every call of the parser on a non-empty rest consumes a character, and between two
  characters there are at most two nested calls: twice the length of the text, and two
  more, is fuel enough, so \<open>JSON_parse\<close> fails on syntax errors only.
\<close>

lemma skip_ws_length: "length (skip_ws s) \<le> length s"
  by (simp add: skip_ws_def length_dropWhile_le)

lemma parse_int_part_shorter: "parse_int_part a = Some (x, b) \<Longrightarrow> length b < length a"
  using length_dropWhile_le [of is_digit "tl a"]
  by (auto simp: parse_int_part_def split: list.splits if_splits)

lemma parse_frac_part_shorter: "parse_frac_part a = Some (x, b) \<Longrightarrow> length b \<le> length a"
  using length_dropWhile_le [of is_digit "tl (tl a)"]
  by (auto simp: parse_frac_part_def split: list.splits if_splits)

lemma parse_exp_digits_shorter: "parse_exp_digits p a = Some (x, b) \<Longrightarrow> length b \<le> length a"
  using length_dropWhile_le [of is_digit "tl a"]
  by (auto simp: parse_exp_digits_def split: list.splits if_splits)

lemma parse_exp_part_shorter: "parse_exp_part a = Some (x, b) \<Longrightarrow> length b \<le> length a"
  by (auto simp: parse_exp_part_def split: list.splits if_splits dest!: parse_exp_digits_shorter)


lemma parse_number_rest:
  assumes "parse_int_part s1 = Some (i', s2)" and "parse_frac_part s2 = Some (f', s3)"
    and "parse_exp_part s3 = Some (e', r)"
  shows "length r < length s1"
  using parse_int_part_shorter [OF assms(1)] parse_frac_part_shorter [OF assms(2)]
    parse_exp_part_shorter [OF assms(3)]
  by simp

lemma parse_number_shorter:
  assumes "parse_number s = Some (num, r)"
  shows "length r < length s"
proof (cases s)
  case Nil
  with assms show ?thesis
    by (simp add: parse_number_def parse_int_part_def)
next
  case (Cons c cs)
  show ?thesis
  proof (cases "c = 45")
    case True
    with assms Cons obtain i' s2 f' s3 e' where
      "parse_int_part cs = Some (i', s2)" "parse_frac_part s2 = Some (f', s3)"
      "parse_exp_part s3 = Some (e', r)"
      by (simp add: parse_number_def split: option.splits prod.splits)
    from parse_number_rest [OF this] Cons show ?thesis
      by simp
  next
    case False
    with assms Cons obtain i' s2 f' s3 e' where
      "parse_int_part s = Some (i', s2)" "parse_frac_part s2 = Some (f', s3)"
      "parse_exp_part s3 = Some (e', r)"
      by (simp add: parse_number_def split: option.splits prod.splits)
    from parse_number_rest [OF this] show ?thesis .
  qed
qed

lemma parse_chars_shorter: "parse_chars cs = Some (str, r) \<Longrightarrow> length r < length cs"
  apply (induction cs arbitrary: str r rule: parse_chars.induct)
   apply simp
  apply (fastforce split: if_splits list.splits option.splits)
  done

lemma parse_consumes:
  "parse_value n s = Ok v r \<Longrightarrow> length r < length s"
  "parse_elements n s = Ok vs r' \<Longrightarrow> length r' < length s"
  "parse_members n s = Ok ms r'' \<Longrightarrow> length r'' < length s"
proof (induction n s and n s and n s arbitrary: v r and vs r' and ms r''
    rule: parse_value_parse_elements_parse_members.induct)
  case (1 s)
  then show ?case by simp
next
  case (2 n)
  then show ?case by simp
next
  case (3 n c cs)
  note sk = skip_ws_length [of cs]
  show ?case
  proof (cases "c = 123")
    case True
    with "3.prems" obtain d ds where d: "skip_ws cs = d # ds"
      by (auto split: list.splits)
    show ?thesis
    proof (cases "d = 125")
      case d125: True
      with "3.prems" True d sk show ?thesis by simp
    next
      case False
      with "3.prems" True d obtain ms where "parse_members n (d # ds) = Ok ms r"
        by (auto split: presult.splits)
      from "3.IH"(1) [OF True d False this] d sk show ?thesis
        by simp
    qed
  next
    case c123: False
    show ?thesis
    proof (cases "c = 91")
      case True
      with "3.prems" obtain d ds where d: "skip_ws cs = d # ds"
        by (auto split: list.splits)
      show ?thesis
      proof (cases "d = 93")
        case d93: True
        with "3.prems" True d sk show ?thesis by simp
      next
        case False
        with "3.prems" True d obtain vs where "parse_elements n (d # ds) = Ok vs r"
          by (auto split: presult.splits)
        from "3.IH"(2) [OF c123 True d False this] d sk show ?thesis
          by simp
      qed
    next
      case c91: False
      show ?thesis
      proof (cases "c = 34")
        case True
        with "3.prems" c123 c91 obtain str where "parse_chars cs = Some (str, r)"
          by (auto split: option.splits)
        from parse_chars_shorter [OF this] show ?thesis by simp
      next
        case False
        with "3.prems" c123 c91
        have "length r \<le> length cs \<or> (\<exists>num. parse_number (c # cs) = Some (num, r))"
          by (auto split: if_splits option.splits)
        then show ?thesis
          by (auto dest: parse_number_shorter)
      qed
    qed
  qed
next
  case (4 s)
  then show ?case by simp
next
  case (5 n s)
  from "5.prems" obtain v r0 where v: "parse_value n s = Ok v r0"
    by (auto split: presult.splits)
  from "5.prems" v obtain d ds where d: "skip_ws r0 = d # ds"
    by (auto split: list.splits)
  from "5.IH"(1) [OF v] have l0: "length r0 < length s" .
  note sk = skip_ws_length [of r0] skip_ws_length [of ds]
  show ?case
  proof (cases "d = 44")
    case True
    with "5.prems" v d obtain vs' where e: "parse_elements n (skip_ws ds) = Ok vs' r'"
      by (auto split: presult.splits)
    from "5.IH"(2) [OF v d True e] l0 d sk show ?thesis
      by simp
  next
    case False
    with "5.prems" v d have "r' = ds"
      by (auto split: if_splits)
    with l0 d sk show ?thesis by simp
  qed
next
  case (6 s)
  then show ?case by simp
next
  case (7 n s)
  from "7.prems" obtain q qs where s: "s = q # qs"
    by (auto split: list.splits)
  with "7.prems" have q: "\<not> q \<noteq> 34"
    by (auto split: if_splits)
  from "7.prems" s q obtain key r0 where k: "parse_chars qs = Some (key, r0)"
    by (auto split: option.splits)
  from "7.prems" s q k obtain col r1 where c: "skip_ws r0 = col # r1"
    by (auto split: list.splits)
  with "7.prems" s q k have col: "\<not> col \<noteq> 58"
    by (auto split: if_splits)
  from "7.prems" s q k c col obtain v r2 where v: "parse_value n (skip_ws r1) = Ok v r2"
    by (auto split: presult.splits)
  from "7.prems" s q k c col v obtain d ds where d: "skip_ws r2 = d # ds"
    by (auto split: list.splits)
  from "7.IH"(1) [OF s q k refl c col v] have l2: "length r2 < length (skip_ws r1)" .
  note sk = skip_ws_length [of r0] skip_ws_length [of r1] skip_ws_length [of r2]
    skip_ws_length [of ds] parse_chars_shorter [OF k]
  show ?case
  proof (cases "d = 44")
    case True
    with "7.prems" s q k c col v d obtain ms' where
      e: "parse_members n (skip_ws ds) = Ok ms' r''"
      by (auto split: presult.splits)
    from "7.IH"(2) [OF s q k refl c col v d True e] l2 s c d sk show ?thesis
      by simp
  next
    case False
    with "7.prems" s q k c col v d have "r'' = ds"
      by (auto split: if_splits)
    with l2 s c d sk show ?thesis by simp
  qed
qed



lemma parse_fuel:
  "2 * length s < n \<Longrightarrow> parse_value n s \<noteq> OutOfFuel"
  "2 * length s + 1 < n \<Longrightarrow> parse_elements n s \<noteq> OutOfFuel"
  "2 * length s + 1 < n \<Longrightarrow> parse_members n s \<noteq> OutOfFuel"
proof (induction n s and n s and n s
    rule: parse_value_parse_elements_parse_members.induct)
  case (1 s)
  then show ?case by simp
next
  case (2 n)
  then show ?case by simp
next
  case (3 n c cs)
  note sk = skip_ws_length [of cs]
  show ?case
  proof (cases "c = 123")
    case True
    show ?thesis
    proof (cases "skip_ws cs")
      case Nil
      with True show ?thesis by simp
    next
      case (Cons d ds)
      show ?thesis
      proof (cases "d = 125")
        case d125: True
        with True Cons show ?thesis by simp
      next
        case False
        from "3.prems" Cons sk have "2 * length (d # ds) + 1 < n"
          by simp
        from "3.IH"(1) [OF True Cons False this] True Cons False show ?thesis
          by (simp split: presult.splits)
      qed
    qed
  next
    case c123: False
    show ?thesis
    proof (cases "c = 91")
      case True
      show ?thesis
      proof (cases "skip_ws cs")
        case Nil
        with True c123 show ?thesis by simp
      next
        case (Cons d ds)
        show ?thesis
        proof (cases "d = 93")
          case d93: True
          with True c123 Cons show ?thesis by simp
        next
          case False
          from "3.prems" Cons sk have "2 * length (d # ds) + 1 < n"
            by simp
          from "3.IH"(2) [OF c123 True Cons False this] True c123 Cons False show ?thesis
            by (simp split: presult.splits)
        qed
      qed
    next
      case False
      with c123 show ?thesis
        by (simp split: option.splits)
    qed
  qed
next
  case (4 s)
  then show ?case by simp
next
  case (5 n s)
  from "5.prems" have v: "parse_value n s \<noteq> OutOfFuel"
    by (intro "5.IH"(1)) simp
  show ?case
  proof (cases "parse_value n s")
    case (Ok v r0)
    from parse_consumes(1) [OF Ok] have l0: "length r0 < length s" .
    show ?thesis
    proof (cases "skip_ws r0")
      case Nil
      with Ok show ?thesis by simp
    next
      case (Cons d ds)
      show ?thesis
      proof (cases "d = 44")
        case True
        from "5.prems" l0 Cons skip_ws_length [of r0] skip_ws_length [of ds]
        have "2 * length (skip_ws ds) + 1 < n"
          by simp
        from "5.IH"(2) [OF Ok Cons True this] Ok Cons True show ?thesis
          by (simp split: presult.splits)
      next
        case False
        with Ok Cons show ?thesis by simp
      qed
    qed
  next
    case SyntaxError
    then show ?thesis by simp
  next
    case OutOfFuel
    with v show ?thesis by simp
  qed
next
  case (6 s)
  then show ?case by simp
next
  case (7 n s)
  show ?case
  proof (cases s)
    case Nil
    then show ?thesis by simp
  next
    case s: (Cons q qs)
    show ?thesis
    proof (cases "q \<noteq> 34")
      case True
      with s show ?thesis by simp
    next
      case q: False
      show ?thesis
      proof (cases "parse_chars qs")
        case None
        with s q show ?thesis by simp
      next
        case (Some kr)
        obtain key r0 where kr: "kr = (key, r0)"
          by (cases kr)
        note k = Some [unfolded kr]
        note lk = parse_chars_shorter [OF k]
        show ?thesis
        proof (cases "skip_ws r0")
          case Nil
          with s q k show ?thesis by simp
        next
          case c: (Cons col r1)
          show ?thesis
          proof (cases "col \<noteq> 58")
            case True
            with s q k c show ?thesis by simp
          next
            case col: False
            from "7.prems" s lk c skip_ws_length [of r0] skip_ws_length [of r1]
            have f: "2 * length (skip_ws r1) < n"
              by simp
            from "7.IH"(1) [OF s q k refl c col f]
            have v: "parse_value n (skip_ws r1) \<noteq> OutOfFuel" .
            show ?thesis
            proof (cases "parse_value n (skip_ws r1)")
              case (Ok v r2)
              from parse_consumes(1) [OF Ok] have l2: "length r2 < length (skip_ws r1)" .
              show ?thesis
              proof (cases "skip_ws r2")
                case Nil
                with s q k c col Ok show ?thesis by simp
              next
                case d: (Cons d ds)
                show ?thesis
                proof (cases "d = 44")
                  case True
                  from f l2 d skip_ws_length [of r2] skip_ws_length [of ds]
                  have "2 * length (skip_ws ds) + 1 < n"
                    by simp
                  from "7.IH"(2) [OF s q k refl c col Ok d True this]
                    s q k c col Ok d True
                  show ?thesis
                    by (simp split: presult.splits)
                next
                  case False
                  with s q k c col Ok d show ?thesis by simp
                qed
              qed
            next
              case SyntaxError
              with s q k c col show ?thesis by simp
            next
              case OutOfFuel
              with v show ?thesis by simp
            qed
          qed
        qed
      qed
    qed
  qed
qed

lemma JSON_parse_fuel: "parse_value (2 * length s + 2) (skip_ws s) \<noteq> OutOfFuel"
  using skip_ws_length [of s] by (intro parse_fuel(1)) simp

section \<open>Numbers\<close>

lemma to_integer_of_int [simp]: "to_integer (of_int k) = k"
  by (simp add: to_integer_def)

lemma to_integer_numeral [simp]: "to_integer (numeral n) = numeral n"
  by (simp add: to_integer_def)

lemma to_integer_one [simp]: "to_integer 1 = 1"
  by (simp add: to_integer_def)

lemma to_integer_ge: "0 \<le> k \<Longrightarrow> of_int k \<le> b \<Longrightarrow> k \<le> to_integer b"
  by (auto simp: to_integer_def le_floor_iff)

lemma smallest_positive: "(1::rat) / 2 ^ 1074 < 1"
  by simp

text \<open>From 1 on, \<open>ceil_half\<close> is the ceiling of the half.\<close>

lemma ceil_half_ceiling: "1 \<le> b \<Longrightarrow> ceil_half b = of_int \<lceil>b / 2\<rceil>"
  using smallest_positive by (simp add: ceil_half_def)

lemma ceil_half_of_int: "1 \<le> k \<Longrightarrow> ceil_half (of_int k) = of_int ((k + 1) div 2)"
proof -
  assume k: "1 \<le> k"
  have "\<lceil>(of_int k :: rat) / of_int 2\<rceil> = - (- k div 2)"
    by (metis ceiling_def floor_divide_of_int_eq minus_divide_left of_int_minus)
  moreover have "- (- k div 2) = (k + 1) div 2"
    by presburger
  ultimately show ?thesis
    using k by (simp add: ceil_half_ceiling)
qed

lemma ceil_half_positive: "1 \<le> b \<Longrightarrow> 1 \<le> to_integer (ceil_half b)"
proof -
  assume b: "1 \<le> b"
  then have "0 < b / 2"
    by simp
  then have "0 < \<lceil>b / 2\<rceil>"
    by simp
  with b show ?thesis
    by (simp add: ceil_half_ceiling)
qed

lemma ceil_half_3: "ceil_half 3 = 2"
  using ceil_half_of_int [of 3] by simp

lemma ceil_half_4: "ceil_half 4 = 2"
  using ceil_half_of_int [of 4] by simp

section \<open>The scheduler of a batch\<close>


text \<open>
  A fetch alone in its batch is \<open>fetchJinaContentWithRetry\<close>: the phases and the
  function describe the same code.
\<close>

lemma run_single_settled: "run_batch e [(r, Settled x)] s = ([(r, Settled x)], s)"
  by (simp add: run_batch.simps)

lemma run_single_step:
  "\<not> is_settled phase \<Longrightarrow>
   run_batch e [(r, phase)] s =
     (case fetch_step e (url r) phase s of (phase1, s1) \<Rightarrow> run_batch e [(r, phase1)] s1)"
  by (subst run_batch.simps) (simp add: next_task_def Let_def)

lemma run_after_error:
  "run_batch e [(r, after_error n err)] s =
     (if is_rate_limit err
      then run_batch e [(r, fst (start_attempt e (n + 1) (delay e s)))]
             (snd (start_attempt e (n + 1) (delay e s)))
      else ([(r, Settled (Inl err))], s))"
  by (simp add: after_error_def run_single_settled run_single_step split: prod.splits)

lemma run_attempt:
  "n < 2 \<Longrightarrow>
   run_batch e [(r, fst (start_attempt e n s))] (snd (start_attempt e n s)) =
     (case fetchJinaContent e (url r) s of
        (Inr d, s1) \<Rightarrow> ([(r, Settled (Inr d))], s1)
      | (Inl err, s1) \<Rightarrow> run_batch e [(r, after_error n err)] s1)"
  by (auto simp: start_attempt_def fetchJinaContent_def Let_def run_single_step run_single_settled
           split: prod.splits sum.splits exn.splits)

lemma run_from_attempt:
  "run_batch e [(r, fst (start_attempt e n s))] (snd (start_attempt e n s)) =
     (case fetch_retry_loop e (url r) n s of (out, s1) \<Rightarrow> ([(r, Settled out)], s1))"
proof (induction e "url r" n s rule: fetch_retry_loop.induct)
  case (1 e retries s)
  show ?case
  proof (cases "retries < 2")
    case False
    then show ?thesis by (simp add: start_attempt_def run_single_settled)
  next
    case True
    obtain out s1 where attempt: "fetchJinaContent e (url r) s = (out, s1)"
      by (cases "fetchJinaContent e (url r) s")
    show ?thesis
    proof (cases out)
      case (Inr d)
      then show ?thesis using True attempt by (simp add: run_attempt)
    next
      case (Inl err)
      show ?thesis
      proof (cases "is_rate_limit err")
        case False
        then show ?thesis using True attempt Inl by (simp add: run_attempt run_after_error)
      next
        case rate: True
        have "run_batch e [(r, fst (start_attempt e (retries + 1) (delay e s1)))]
                (snd (start_attempt e (retries + 1) (delay e s1))) =
              (case fetch_retry_loop e (url r) (retries + 1) (delay e s1) of
                 (out, s2) \<Rightarrow> ([(r, Settled out)], s2))"
          using "1.hyps" [OF True attempt [symmetric] Inl rate] .
        then show ?thesis using True attempt Inl rate by (simp add: run_attempt run_after_error)
      qed
    qed
  qed
qed

lemma single_fetch:
  "run_batch e [(r, InitialDelay)] s =
     (case fetchJinaContentWithRetry e (url r) s of (out, s1) \<Rightarrow> ([(r, Settled out)], s1))"
  using run_from_attempt [of e r 0 "delay e s"]
  by (simp add: run_single_step fetchJinaContentWithRetry_def case_prod_beta
           del: fetch_retry_loop.simps)

lemma fetch_contents_single:
  "fetch_contents e [r] s =
     (case fetchJinaContentWithRetry e (url r) s of
        (Inl err, s1) \<Rightarrow> ([], s1)
      | (Inr md, s1) \<Rightarrow> ([\<lparr>page_url = url r, markdown = md\<rparr>], s1))"
  by (simp add: fetch_contents_def single_fetch split: prod.splits sum.splits)

section \<open>Runs of the example capabilities\<close>

lemma delay_env0 [simp]: "delay env0 s = s"
  by (simp add: env0_def)

lemma as_SerpQuery_object:
  "as_SerpQuery (JObject [(js ''query'', JString a), (js ''researchGoal'', JString g)]) =
     Some \<lparr>query = a, researchGoal = g\<rparr>"
  by (simp add: as_SerpQuery_def js_def)

lemma extract_answer_queries: "extract_json answer_queries = Some answer_queries"
  by code_simp

lemma JSON_parse_answer_queries:
  "JSON_parse answer_queries =
     Some (JObject [(js ''queries'', JArray
       [JObject [(js ''query'', JString (js ''q1'')), (js ''researchGoal'', JString (js ''g1''))],
        JObject [(js ''query'', JString (js ''q2'')), (js ''researchGoal'', JString (js ''g2''))],
        JObject [(js ''query'', JString (js ''q3'')), (js ''researchGoal'', JString (js ''g3''))]])])"
  by code_simp

lemma parse_answer_queries:
  "parse_queries answer_queries n =
     Inr (slice0
       [JObject [(js ''query'', JString (js ''q1'')), (js ''researchGoal'', JString (js ''g1''))],
        JObject [(js ''query'', JString (js ''q2'')), (js ''researchGoal'', JString (js ''g2''))],
        JObject [(js ''query'', JString (js ''q3'')), (js ''researchGoal'', JString (js ''g3''))]] n)"
  by (simp add: parse_queries_def extract_answer_queries JSON_parse_answer_queries)

lemma generateSerpQueries_env0:
  "generateSerpQueries env0 q n ls s = (parse_queries answer_queries n, s)"
  by (simp add: generateSerpQueries_def env0_def)

lemma sub_queries_env0:
  "3 \<le> b \<Longrightarrow>
   generateSerpQueries env0 q b ls s =
     (Inr [JObject [(js ''query'', JString (js ''q1'')), (js ''researchGoal'', JString (js ''g1''))],
           JObject [(js ''query'', JString (js ''q2'')), (js ''researchGoal'', JString (js ''g2''))],
           JObject [(js ''query'', JString (js ''q3'')), (js ''researchGoal'', JString (js ''g3''))]],
      s)"
  by (simp add: generateSerpQueries_env0 parse_answer_queries slice0_def)

lemma two_sub_queries_env0:
  "generateSerpQueries env0 q 2 ls s =
     (Inr [JObject [(js ''query'', JString (js ''q1'')), (js ''researchGoal'', JString (js ''g1''))],
           JObject [(js ''query'', JString (js ''q2'')), (js ''researchGoal'', JString (js ''g2''))]],
      s)"
  by (simp add: generateSerpQueries_env0 parse_answer_queries slice0_def)

lemma sub_queries_typed:
  "all_some (map as_SerpQuery
     [JObject [(js ''query'', JString (js ''q1'')), (js ''researchGoal'', JString (js ''g1''))],
      JObject [(js ''query'', JString (js ''q2'')), (js ''researchGoal'', JString (js ''g2''))],
      JObject [(js ''query'', JString (js ''q3'')), (js ''researchGoal'', JString (js ''g3''))]]) =
   Some [\<lparr>query = js ''q1'', researchGoal = js ''g1''\<rparr>,
         \<lparr>query = js ''q2'', researchGoal = js ''g2''\<rparr>,
         \<lparr>query = js ''q3'', researchGoal = js ''g3''\<rparr>]"
  by (simp add: as_SerpQuery_object)

lemma search_env0: "executeDuckDuckSearchWithRetry env0 q s = (Inr [the_page], s)"
  by (simp add: executeDuckDuckSearchWithRetry_def safeDuckDuckSearch_def env0_def)

lemma fetch_env0:
  "totalJinaRequests s < 20 \<Longrightarrow>
   fetchJinaContentWithRetry env0 u s =
     (Inr (js ''page text''), s\<lparr>totalJinaRequests := totalJinaRequests s + 1\<rparr>)"
  by (simp add: fetchJinaContentWithRetry_def fetchJinaContent_def env0_def)

lemma fetch_contents_env0:
  "totalJinaRequests s < 20 \<Longrightarrow>
   fetch_contents env0 [the_page] s =
     ([\<lparr>page_url = js ''http://a'', markdown = js ''page text''\<rparr>],
      s\<lparr>totalJinaRequests := totalJinaRequests s + 1\<rparr>)"
  by (simp add: fetch_contents_single fetch_env0) (simp add: the_page_def)

lemma summary_env0: "generateContent_learnings env0 q cs n m s = (Inr answer_learnings, s)"
  by (simp add: env0_def)

lemma extract_answer_learnings: "extract_json answer_learnings = Some answer_learnings"
  by code_simp

lemma JSON_parse_answer_learnings:
  "JSON_parse answer_learnings =
     Some (JObject [(js ''learnings'', JArray [JString (js ''fact'')]),
                    (js ''followUpQuestions'', JArray [JString (js ''next?'')])])"
  by code_simp

lemma parse_answer_learnings:
  "1 \<le> m \<Longrightarrow>
   parse_learnings answer_learnings 3 m = Inr ([JString (js ''fact'')], [JString (js ''next?'')])"
  by (simp add: parse_learnings_def extract_answer_learnings JSON_parse_answer_learnings slice0_def)
    (simp add: js_def)

lemma research_step_env0:
  "totalJinaRequests s < 20 \<Longrightarrow> 1 \<le> b \<Longrightarrow>
   research_step env0 b ls us sq s =
     (Returned ([js ''next?''], ls @ [js ''fact''], us @ [js ''http://a'']),
      s\<lparr>totalJinaRequests := totalJinaRequests s + 1\<rparr>)"
  by (simp add: research_step_def search_env0 fetch_contents_env0 processSerpResult_def
      ceil_half_positive parse_answer_learnings summary_env0)

section \<open>The JSON repair parser on a broken text\<close>

lemmas clean_defs =
  clean_json_def fix_unescaped_quotes_def fix_line_breaks_def is_escapable_def remove_bom_def
  remove_control_def strip_fence_close_def comma_target_def trim_def wrap_open_def
  wrap_close_def is_space_def

text \<open>
  One repair pass on \<open>broken_json\<close>: the line break and the trailing comma are repaired,
  but every quote of the text, the structural ones too, now follows a backslash.
\<close>

lemma clean_broken_json:
  "clean_json broken_json =
     js ''{'' @ [92] @ js ''\"a'' @ [92] @ js ''\": '' @ [92] @ js ''\"b '' @ [92] @ js ''\" c'' @
     [92] @ js ''nd'' @ [92] @ js ''\", '' @ [92] @ js ''\"e'' @ [92] @ js ''\": [1, 2]}''"
  by (simp add: clean_defs broken_json_def js_def)

text \<open>The second pass finds nothing left to change.\<close>

lemma clean_broken_json_twice: "clean_json (clean_json broken_json) = clean_json broken_json"
  unfolding clean_broken_json by (simp add: clean_defs js_def)

lemma parse_broken_json: "JSON_parse broken_json = None"
  by code_simp

lemma parse_cleaned_broken_json: "JSON_parse (clean_json broken_json) = None"
  unfolding clean_broken_json by code_simp

text \<open>
  \<^bold>\<open>C7.\<close> The claim: a text with one stray unescaped quote, a raw line break and a
  trailing comma is recovered by \<open>retryJsonParse\<close> within its two repair passes, to the
  object of the text corrected by hand. On \<open>broken_json\<close> the code does not: the direct
  parse and the parses after both repair passes throw, and \<open>retryJsonParse\<close> fails after
  three attempts, while the corrected text parses directly.
\<close>

theorem retryJsonParse_fails_on_broken_json:
  "retryJsonParse broken_json 0 = Inl (FailedToParseJSON 3) \<and>
   JSON_parse corrected_json =
     Some (JObject [(js ''a'', JString (js ''b \" c\<newline>d'')),
                    (js ''e'', JArray [JNumber (js ''1''), JNumber (js ''2'')])])"
proof
  show "retryJsonParse broken_json 0 = Inl (FailedToParseJSON 3)"
    by (simp add: parse_broken_json parse_cleaned_broken_json clean_broken_json_twice
        MAX_RETRIES_def)
next
  show "JSON_parse corrected_json =
     Some (JObject [(js ''a'', JString (js ''b \" c\<newline>d'')),
                    (js ''e'', JArray [JNumber (js ''1''), JNumber (js ''2'')])])"
    by code_simp
qed

text \<open>
  Two smaller texts. A trailing comma alone is repaired when the text has no quote; with a
  quoted key, the repair escapes the quotes of the key and fails.
\<close>

lemma clean_trailing_comma:
  "clean_json (js ''{\"a\": 1,}'') = js ''{'' @ [92] @ js ''\"a'' @ [92] @ js ''\": 1}''"
  by (simp add: clean_defs js_def)

lemma clean_trailing_comma_twice:
  "clean_json (clean_json (js ''{\"a\": 1,}'')) = clean_json (js ''{\"a\": 1,}'')"
  unfolding clean_trailing_comma by (simp add: clean_defs js_def)

lemma parse_trailing_comma: "JSON_parse (js ''{\"a\": 1,}'') = None"
  by code_simp

lemma parse_cleaned_trailing_comma: "JSON_parse (clean_json (js ''{\"a\": 1,}'')) = None"
  unfolding clean_trailing_comma by code_simp

lemma retryJsonParse_fails_on_trailing_comma:
  "retryJsonParse (js ''{\"a\": 1,}'') 0 = Inl (FailedToParseJSON 3)"
  by (simp add: parse_trailing_comma parse_cleaned_trailing_comma clean_trailing_comma_twice
      MAX_RETRIES_def)

lemma retryJsonParse_repairs_array:
  "retryJsonParse (js ''[1, 2,]'') 0 = Inr (JArray [JNumber (js ''1''), JNumber (js ''2'')])"
proof -
  have c: "clean_json (js ''[1, 2,]'') = js ''[1, 2]''"
    by (simp add: clean_defs js_def)
  have p: "JSON_parse (js ''[1, 2,]'') = None"
    by code_simp
  have q: "JSON_parse (js ''[1, 2]'') = Some (JArray [JNumber (js ''1''), JNumber (js ''2'')])"
    by code_simp
  show ?thesis
    by (simp add: p c q MAX_RETRIES_def)
qed

section \<open>The retry loops\<close>

lemma search_retry_exhausted:
  assumes "safeDuckDuckSearch e q s = (Inl e1, s1)" and "is_rate_limit e1"
    and "safeDuckDuckSearch e q (delay e s1) = (Inl e2, s2)" and "is_rate_limit e2"
    and "safeDuckDuckSearch e q (delay e s2) = (Inl e3, s3)" and "is_rate_limit e3"
  shows "executeDuckDuckSearchWithRetry e q s =
           (Inl (Error (js ''DuckDuckGo search failed after 3 retries'')), delay e s3)"
  using assms by (simp add: executeDuckDuckSearchWithRetry_def)

lemma search_retry_fatal:
  assumes "retries < 3" and "safeDuckDuckSearch e q s = (Inl err, s1)" and "\<not> is_rate_limit err"
  shows "search_retry_loop e q retries s = (Inl err, s1)"
  using assms by simp

lemma fetch_retry_exhausted:
  assumes "fetchJinaContent e u (delay e s) = (Inl e1, s1)" and "is_rate_limit e1"
    and "fetchJinaContent e u (delay e s1) = (Inl e2, s2)" and "is_rate_limit e2"
  shows "fetchJinaContentWithRetry e u s =
           (Inl (Error (js ''Jina content fetch failed after 2 retries'')), delay e s2)"
  using assms by (simp add: fetchJinaContentWithRetry_def)

lemma fetch_retry_fatal:
  assumes "retries < 2" and "fetchJinaContent e u s = (Inl err, s1)" and "\<not> is_rate_limit err"
  shows "fetch_retry_loop e u retries s = (Inl err, s1)"
  using assms by simp

lemma global_error_is_rate_limit:
  "is_rate_limit (Error (js ''Global Jina rate limit exceeded''))"
  by (simp add: js_def)

lemma search_limit_error_is_rate_limit:
  "is_rate_limit (Error (js ''DuckDuckGo search rate limit exceeded''))"
  by (simp add: js_def)

lemma fetchJinaContent_exhausted:
  "rateLimits_contentFetch e \<le> totalJinaRequests s \<Longrightarrow>
   fetchJinaContent e u s = (Inl (Error (js ''Global Jina rate limit exceeded'')), s)"
  by (simp add: fetchJinaContent_def)

lemma safeDuckDuckSearch_limited:
  "safeDuckDuckSearch env_search_limited q s =
     (Inl (Error (js ''DuckDuckGo search rate limit exceeded'')), s)"
  by (simp add: safeDuckDuckSearch_def env_search_limited_def env0_def)

lemma safeDuckDuckSearch_down:
  "safeDuckDuckSearch env_search_down q s = (Inl (Error (js ''network down'')), s)"
  by (simp add: safeDuckDuckSearch_def env_search_down_def env0_def)

lemma fetchJinaContent_down:
  "totalJinaRequests s < 20 \<Longrightarrow>
   fetchJinaContent env_fetch_down u s =
     (Inl (AxiosError (Some 500) (js ''Request failed with status code 500'')),
      s\<lparr>totalJinaRequests := totalJinaRequests s + 1\<rparr>)"
  by (simp add: fetchJinaContent_def env_fetch_down_def env0_def)

text \<open>
  \<^bold>\<open>C6, as the claim states it.\<close> With the search limiter refusing every request, each
  of the three attempts of the search fails with the rate-limit error
  \<open>DuckDuckGo search rate limit exceeded\<close>; the wrapper does not fail with this last
  error of the operation but with an error of its own.
\<close>

theorem search_retry_not_last_error:
  "safeDuckDuckSearch env_search_limited (js ''q1'') state0 =
     (Inl (Error (js ''DuckDuckGo search rate limit exceeded'')), state0) \<and>
   is_rate_limit (Error (js ''DuckDuckGo search rate limit exceeded'')) \<and>
   executeDuckDuckSearchWithRetry env_search_limited (js ''q1'') state0 =
     (Inl (Error (js ''DuckDuckGo search failed after 3 retries'')), state0) \<and>
   Error (js ''DuckDuckGo search failed after 3 retries'') \<noteq>
     Error (js ''DuckDuckGo search rate limit exceeded'')"
proof -
  have d: "delay env_search_limited state0 = state0"
    by (simp add: env_search_limited_def env0_def)
  have "executeDuckDuckSearchWithRetry env_search_limited (js ''q1'') state0 =
     (Inl (Error (js ''DuckDuckGo search failed after 3 retries'')),
      delay env_search_limited (delay env_search_limited (delay env_search_limited state0)))"
    by (rule search_retry_exhausted
        [OF safeDuckDuckSearch_limited search_limit_error_is_rate_limit
            safeDuckDuckSearch_limited search_limit_error_is_rate_limit
            safeDuckDuckSearch_limited search_limit_error_is_rate_limit])
  moreover have "Error (js ''DuckDuckGo search failed after 3 retries'') \<noteq>
     Error (js ''DuckDuckGo search rate limit exceeded'')"
    by (simp add: js_def)
  ultimately show ?thesis
    using safeDuckDuckSearch_limited [of "js ''q1''" state0] search_limit_error_is_rate_limit
    by (simp only: d) blast
qed

text \<open>
  \<^bold>\<open>C6, amended.\<close> When the operation fails with a rate-limit error (an \<open>Error\<close> whose
  message contains \<open>rate limit\<close>) on every attempt, three for the search and two for the
  content fetch, the wrapper fails with an error of its own, \<open>DuckDuckGo search failed
  after 3 retries\<close> or \<open>Jina content fetch failed after 2 retries\<close>, after the delay that
  follows the last attempt. An error that is not a rate-limit error ends the loop at once,
  in whatever round it occurs, and is the error of the wrapper.
\<close>

theorem retry_wrapper_outcome:
  "(safeDuckDuckSearch e q s = (Inl e1, s1) \<and> is_rate_limit e1 \<and>
    safeDuckDuckSearch e q (delay e s1) = (Inl e2, s2) \<and> is_rate_limit e2 \<and>
    safeDuckDuckSearch e q (delay e s2) = (Inl e3, s3) \<and> is_rate_limit e3 \<longrightarrow>
      executeDuckDuckSearchWithRetry e q s =
        (Inl (Error (js ''DuckDuckGo search failed after 3 retries'')), delay e s3)) \<and>
   (fetchJinaContent e u (delay e t) = (Inl f1, t1) \<and> is_rate_limit f1 \<and>
    fetchJinaContent e u (delay e t1) = (Inl f2, t2) \<and> is_rate_limit f2 \<longrightarrow>
      fetchJinaContentWithRetry e u t =
        (Inl (Error (js ''Jina content fetch failed after 2 retries'')), delay e t2)) \<and>
   (retries < 3 \<and> safeDuckDuckSearch e q s' = (Inl err, s'') \<and> \<not> is_rate_limit err \<longrightarrow>
      search_retry_loop e q retries s' = (Inl err, s'')) \<and>
   (retries' < 2 \<and> fetchJinaContent e u t' = (Inl err', t'') \<and> \<not> is_rate_limit err' \<longrightarrow>
      fetch_retry_loop e u retries' t' = (Inl err', t''))"
  apply (intro conjI impI; elim conjE)
     apply (erule (5) search_retry_exhausted)
    apply (erule (3) fetch_retry_exhausted)
   apply (erule (2) search_retry_fatal)
  apply (erule (2) fetch_retry_fatal)
  done

text \<open>
  \<^bold>\<open>C6, an instance.\<close>
  The theorem at work: three refused searches, two fetches against a spent global
  budget, a search engine that is down, a content service that answers 500.
\<close>

theorem retry_wrapper_outcome_witness:
  "executeDuckDuckSearchWithRetry env_search_limited (js ''q1'') state0 =
     (Inl (Error (js ''DuckDuckGo search failed after 3 retries'')), state0) \<and>
   fetchJinaContentWithRetry env0 (js ''http://a'') state_spent =
     (Inl (Error (js ''Jina content fetch failed after 2 retries'')), state_spent) \<and>
   search_retry_loop env_search_down (js ''q1'') 0 state0 =
     (Inl (Error (js ''network down'')), state0) \<and>
   fetch_retry_loop env_fetch_down (js ''http://a'') 0 state0 =
     (Inl (AxiosError (Some 500) (js ''Request failed with status code 500'')),
      state0\<lparr>totalJinaRequests := 1\<rparr>)"
proof (intro conjI)
  let ?rl = "Error (js ''DuckDuckGo search rate limit exceeded'')"
  have d: "delay env_search_limited s = s" for s
    by (simp add: env_search_limited_def env0_def)
  from retry_wrapper_outcome
    [where e = env_search_limited and q = "js ''q1''" and s = state0
       and ?e1.0 = ?rl and ?s1.0 = state0 and ?e2.0 = ?rl and ?s2.0 = state0
       and ?e3.0 = ?rl and ?s3.0 = state0]
  show "executeDuckDuckSearchWithRetry env_search_limited (js ''q1'') state0 =
     (Inl (Error (js ''DuckDuckGo search failed after 3 retries'')), state0)"
    using search_limit_error_is_rate_limit by (simp add: safeDuckDuckSearch_limited d)
next
  let ?gl = "Error (js ''Global Jina rate limit exceeded'')"
  have spent: "rateLimits_contentFetch env0 \<le> totalJinaRequests state_spent"
    by (simp add: env0_def state_spent_def)
  from retry_wrapper_outcome
    [where e = env0 and u = "js ''http://a''" and t = state_spent
       and ?f1.0 = ?gl and ?t1.0 = state_spent and ?f2.0 = ?gl and ?t2.0 = state_spent]
  show "fetchJinaContentWithRetry env0 (js ''http://a'') state_spent =
     (Inl (Error (js ''Jina content fetch failed after 2 retries'')), state_spent)"
    using global_error_is_rate_limit by (simp add: fetchJinaContent_exhausted [OF spent])
next
  from retry_wrapper_outcome
    [where e = env_search_down and q = "js ''q1''" and retries = 0 and s' = state0
       and err = "Error (js ''network down'')" and s'' = state0]
  show "search_retry_loop env_search_down (js ''q1'') 0 state0 =
     (Inl (Error (js ''network down'')), state0)"
    by (simp add: safeDuckDuckSearch_down) (simp add: js_def)
next
  let ?ax = "AxiosError (Some 500) (js ''Request failed with status code 500'')"
  have f: "fetchJinaContent env_fetch_down (js ''http://a'') state0 =
     (Inl ?ax, state0\<lparr>totalJinaRequests := totalJinaRequests state0 + 1\<rparr>)"
    by (rule fetchJinaContent_down) (simp add: state0_def)
  have n: "\<not> is_rate_limit ?ax"
    by (simp add: js_def)
  from retry_wrapper_outcome
    [where e = env_fetch_down and u = "js ''http://a''" and retries' = 0 and t' = state0
       and err' = ?ax and t'' = "state0\<lparr>totalJinaRequests := totalJinaRequests state0 + 1\<rparr>"]
    f n
  show "fetch_retry_loop env_fetch_down (js ''http://a'') 0 state0 =
     (Inl ?ax, state0\<lparr>totalJinaRequests := 1\<rparr>)"
    by (simp add: state0_def)
qed

section \<open>The global content-fetch budget\<close>

text \<open>
  \<^bold>\<open>C4, as the claim states it.\<close> With the counter at the limit of 20, the fetch itself
  fails at once with \<open>Global Jina rate limit exceeded\<close>. The message contains
  \<open>rate limit\<close>, so the retry loop takes it for a rate-limit error like the per-key one:
  it waits and tries again, and the wrapper fails with \<open>Jina content fetch failed after 2
  retries\<close>, not with the global error.
\<close>

theorem global_budget_is_retried:
  "fetchJinaContent env0 (js ''http://a'') state_spent =
     (Inl (Error (js ''Global Jina rate limit exceeded'')), state_spent) \<and>
   is_rate_limit (Error (js ''Global Jina rate limit exceeded'')) \<and>
   fetchJinaContentWithRetry env0 (js ''http://a'') state_spent =
     (Inl (Error (js ''Jina content fetch failed after 2 retries'')), state_spent) \<and>
   Error (js ''Jina content fetch failed after 2 retries'') \<noteq>
     Error (js ''Global Jina rate limit exceeded'')"
proof (intro conjI)
  have spent: "rateLimits_contentFetch env0 \<le> totalJinaRequests state_spent"
    by (simp add: env0_def state_spent_def)
  have d: "delay env0 s = s" for s :: "unit state"
    by (simp add: env0_def)
  show f: "fetchJinaContent env0 (js ''http://a'') state_spent =
     (Inl (Error (js ''Global Jina rate limit exceeded'')), state_spent)"
    by (rule fetchJinaContent_exhausted [OF spent])
  show "is_rate_limit (Error (js ''Global Jina rate limit exceeded''))"
    by (rule global_error_is_rate_limit)
  have "fetchJinaContentWithRetry env0 (js ''http://a'') state_spent =
     (Inl (Error (js ''Jina content fetch failed after 2 retries'')), delay env0 state_spent)"
  proof -
    have f': "fetchJinaContent env0 (js ''http://a'') (delay env0 state_spent) =
       (Inl (Error (js ''Global Jina rate limit exceeded'')), state_spent)"
      unfolding d by (rule f)
    show ?thesis
      by (rule fetch_retry_exhausted
          [OF f' global_error_is_rate_limit f' global_error_is_rate_limit])
  qed
  then show "fetchJinaContentWithRetry env0 (js ''http://a'') state_spent =
     (Inl (Error (js ''Jina content fetch failed after 2 retries'')), state_spent)"
    by (simp only: d)
  show "Error (js ''Jina content fetch failed after 2 retries'') \<noteq>
     Error (js ''Global Jina rate limit exceeded'')"
    by (simp add: js_def)
qed

text \<open>
  \<^bold>\<open>C4, amended.\<close> When the global counter is exhausted after the initial delay and
  again after the retry delay, every attempt of \<open>fetchJinaContent\<close> fails at once with
  \<open>Global Jina rate limit exceeded\<close> and leaves the state as it is (no counter change, no
  limiter call, no request). This error is classified like a per-key rate-limit error:
  \<open>fetchJinaContentWithRetry\<close> makes both of its attempts, with its delays, and fails with
  \<open>Jina content fetch failed after 2 retries\<close>.
\<close>

theorem global_budget_exhausted:
  assumes "rateLimits_contentFetch e \<le> totalJinaRequests (delay e s)"
    and "rateLimits_contentFetch e \<le> totalJinaRequests (delay e (delay e s))"
  shows "fetchJinaContent e u (delay e s) =
           (Inl (Error (js ''Global Jina rate limit exceeded'')), delay e s) \<and>
         is_rate_limit (Error (js ''Global Jina rate limit exceeded'')) \<and>
         fetchJinaContent e u (delay e (delay e s)) =
           (Inl (Error (js ''Global Jina rate limit exceeded'')), delay e (delay e s)) \<and>
         fetchJinaContentWithRetry e u s =
           (Inl (Error (js ''Jina content fetch failed after 2 retries'')),
            delay e (delay e (delay e s)))"
proof -
  note f1 = fetchJinaContent_exhausted [OF assms(1), of u]
  note f2 = fetchJinaContent_exhausted [OF assms(2), of u]
  have "fetchJinaContentWithRetry e u s =
           (Inl (Error (js ''Jina content fetch failed after 2 retries'')),
            delay e (delay e (delay e s)))"
    by (rule fetch_retry_exhausted [OF f1 global_error_is_rate_limit f2 global_error_is_rate_limit])
  with f1 f2 global_error_is_rate_limit show ?thesis
    by blast
qed

text \<open>
  \<^bold>\<open>C4, an instance.\<close>
  The counter stands at the limit of 20 and no delay resets it.
\<close>

theorem global_budget_exhausted_witness:
  "rateLimits_contentFetch env0 \<le> totalJinaRequests (delay env0 state_spent) \<and>
   rateLimits_contentFetch env0 \<le> totalJinaRequests (delay env0 (delay env0 state_spent)) \<and>
   fetchJinaContentWithRetry env0 (js ''http://a'') state_spent =
     (Inl (Error (js ''Jina content fetch failed after 2 retries'')), state_spent)"
proof -
  have a: "rateLimits_contentFetch env0 \<le> totalJinaRequests (delay env0 state_spent)"
    and b: "rateLimits_contentFetch env0 \<le> totalJinaRequests (delay env0 (delay env0 state_spent))"
    by (simp_all add: env0_def state_spent_def)
  from global_budget_exhausted [OF a b, of "js ''http://a''"] a b show ?thesis
    by simp
qed


section \<open>Query generation\<close>

lemma slice0_length: "0 \<le> n \<Longrightarrow> length (slice0 xs n) \<le> nat n"
  by (simp add: slice0_def)









section \<open>The batch of fetches\<close>










lemma url_a_not_bad: "js ''http://a'' \<noteq> js ''http://bad''"
  by (simp add: js_def)












text \<open>
  The fetches of a batch are not run one after the other. With room for two requests and
  a first page whose request is refused with status 429, both fetches make their first
  attempt before the first one retries: the second page is fetched, and the retries of
  the first find the counter spent. Run alone and in turn, the first fetch would have
  used both requests.
\<close>

lemma rate_limit_error_is_rate_limit:
  "is_rate_limit (Error (js ''Jina AI content fetch rate limit exceeded''))"
  by (simp add: js_def)

lemma global_limit_is_rate_limit:
  "is_rate_limit (Error (js ''Global Jina rate limit exceeded''))"
  by (simp add: js_def)

lemma schedule_env_throttled:
  "schedule env_throttled s phases = length (takeWhile (\<lambda>phase. phase \<noteq> InitialDelay) phases)"
  by (simp add: env_throttled_def env0_def)

lemma step_initial_env_throttled:
  "totalJinaRequests s < 20 \<Longrightarrow>
   fetch_step env_throttled u InitialDelay s =
     (Requesting 0, s\<lparr>totalJinaRequests := totalJinaRequests s + 1\<rparr>)"
  by (simp add: start_attempt_def env_throttled_def env0_def)

lemma step_bad_env_throttled:
  "fetch_step env_throttled (js ''http://bad'') (Requesting n) s = (RetryDelay n, s)"
  using rate_limit_error_is_rate_limit by (simp add: env_throttled_def env0_def after_error_def)

lemma step_good_env_throttled:
  "fetch_step env_throttled (js ''http://a'') (Requesting n) s = (Settled (Inr (js ''page text'')), s)"
  using url_a_not_bad by (simp add: env_throttled_def env0_def)

lemma step_retry_env_throttled:
  "20 \<le> totalJinaRequests s \<Longrightarrow>
   fetch_step env_throttled u (RetryDelay 0) s = (RetryDelay 1, s)"
  using global_limit_is_rate_limit
  by (simp add: start_attempt_def env_throttled_def env0_def after_error_def)

lemma step_last_env_throttled:
  "fetch_step env_throttled u (RetryDelay (Suc 0)) s =
     (Settled (Inl (Error (js ''Jina content fetch failed after 2 retries''))), s)"
  by (simp add: start_attempt_def env_throttled_def env0_def)

lemma run_batch_env_throttled:
  "run_batch env_throttled [(bad_page, InitialDelay), (the_page, InitialDelay)] state_nearly_spent =
     ([(bad_page, Settled (Inl (Error (js ''Jina content fetch failed after 2 retries'')))),
       (the_page, Settled (Inr (js ''page text'')))],
      state_nearly_spent\<lparr>totalJinaRequests := 20\<rparr>)"
proof -
  let ?spent = "state_nearly_spent\<lparr>totalJinaRequests := 20\<rparr>"
  have url: "url bad_page = js ''http://bad''" "url the_page = js ''http://a''"
    by (simp_all add: bad_page_def the_page_def)
  have spent: "20 \<le> totalJinaRequests ?spent"
    by simp
  have "run_batch env_throttled [(bad_page, InitialDelay), (the_page, InitialDelay)] state_nearly_spent =
        run_batch env_throttled [(bad_page, Requesting 0), (the_page, InitialDelay)]
          (state_nearly_spent\<lparr>totalJinaRequests := 19\<rparr>)"
    by (subst run_batch.simps)
      (simp add: next_task_def schedule_env_throttled step_initial_env_throttled
         state_nearly_spent_def del: fetch_step.simps)
  also have "\<dots> = run_batch env_throttled [(bad_page, Requesting 0), (the_page, Requesting 0)] ?spent"
    by (subst run_batch.simps)
      (simp add: next_task_def schedule_env_throttled step_initial_env_throttled
         state_nearly_spent_def del: fetch_step.simps)
  also have "\<dots> = run_batch env_throttled [(bad_page, RetryDelay 0), (the_page, Requesting 0)] ?spent"
    by (subst run_batch.simps)
      (simp add: next_task_def schedule_env_throttled step_bad_env_throttled url
         del: fetch_step.simps)
  also have "\<dots> = run_batch env_throttled [(bad_page, RetryDelay 1), (the_page, Requesting 0)] ?spent"
    by (subst run_batch.simps)
      (simp add: next_task_def schedule_env_throttled step_retry_env_throttled [OF spent] url
         del: fetch_step.simps)
  also have "\<dots> = run_batch env_throttled
          [(bad_page, Settled (Inl (Error (js ''Jina content fetch failed after 2 retries'')))),
           (the_page, Requesting 0)] ?spent"
    by (subst run_batch.simps)
      (simp add: next_task_def schedule_env_throttled step_last_env_throttled url
         del: fetch_step.simps)
  also have "\<dots> = run_batch env_throttled
          [(bad_page, Settled (Inl (Error (js ''Jina content fetch failed after 2 retries'')))),
           (the_page, Settled (Inr (js ''page text'')))] ?spent"
    by (subst run_batch.simps)
      (simp add: next_task_def schedule_env_throttled step_good_env_throttled url
         del: fetch_step.simps)
  also have "\<dots> =
     ([(bad_page, Settled (Inl (Error (js ''Jina content fetch failed after 2 retries'')))),
       (the_page, Settled (Inr (js ''page text'')))], ?spent)"
    by (simp add: run_batch.simps)
  finally show ?thesis .
qed

lemma first_attempts_before_retries:
  "fetch_contents env_throttled [bad_page, the_page] state_nearly_spent =
     ([\<lparr>page_url = js ''http://a'', markdown = js ''page text''\<rparr>],
      state_nearly_spent\<lparr>totalJinaRequests := 20\<rparr>)"
  by (simp add: fetch_contents_def run_batch_env_throttled) (simp add: the_page_def)

lemma one_after_the_other:
  "fetchJinaContentWithRetry env_throttled (js ''http://bad'') state_nearly_spent =
     (Inl (Error (js ''Jina content fetch failed after 2 retries'')),
      state_nearly_spent\<lparr>totalJinaRequests := 20\<rparr>)"
  "fetchJinaContentWithRetry env_throttled (js ''http://a'')
     (state_nearly_spent\<lparr>totalJinaRequests := 20\<rparr>) =
     (Inl (Error (js ''Jina content fetch failed after 2 retries'')),
      state_nearly_spent\<lparr>totalJinaRequests := 20\<rparr>)"
  using rate_limit_error_is_rate_limit global_limit_is_rate_limit
  by (simp_all add: fetchJinaContentWithRetry_def fetchJinaContent_def env_throttled_def env0_def
      state_nearly_spent_def)


section \<open>Aggregation\<close>

lemma set_set_spread: "set (set_spread xs) = set xs"
  by (induction xs) auto

lemma distinct_set_spread: "distinct (set_spread xs)"
  by (induction xs) (auto simp: set_set_spread)

lemma deepResearch_Returned:
  assumes "deepResearch e q breadth depth ls us s = (Returned r, s')"
  shows "\<exists>qs s1 serpQueries results pushed.
           generateSerpQueries e q (to_integer breadth) ls s = (Inr qs, s1) \<and>
           all_some (map as_SerpQuery qs) = Some serpQueries \<and>
           runBranches e breadth depth ls us serpQueries s1 = (Returned (results, pushed), s') \<and>
           r = aggregate pushed results"
  using assms
  by (subst (asm) deepResearch.simps)
    (auto split: prod.splits sum.splits option.splits outcome.splits)

text \<open>
  \<^bold>\<open>C2.\<close> Whatever the query, the breadth, the depth, the seed and the capabilities,
  a result that \<open>deepResearch\<close> returns has no string twice among its learnings and no
  URL twice among its visited URLs.
\<close>

theorem deepResearch_no_duplicates:
  assumes "deepResearch e q breadth depth ls us s = (Returned r, s')"
  shows "distinct (learnings r) \<and> distinct (visitedUrls r)"
proof -
  from deepResearch_Returned [OF assms] obtain results pushed where
    "r = aggregate pushed results"
    by blast
  then show ?thesis
    by (simp add: aggregate_def distinct_set_spread)
qed


lemma deepResearch_env0_depth1:
  "deepResearch env0 (js ''topic'') 3 1 [] [] state0 =
     (Returned \<lparr>learnings = [js ''fact''], visitedUrls = [js ''http://a''], errors = []\<rparr>,
      state0\<lparr>totalJinaRequests := 3\<rparr>)"
  by (simp add: deepResearch.simps branch.simps sub_queries_env0 as_SerpQuery_object
      research_step_env0 state0_def aggregate_def)

text \<open>
  \<^bold>\<open>C2, an instance.\<close>
  Three branches that each find the learning \<open>fact\<close> on the page \<open>http://a\<close>: the
  result holds the learning once and the URL once.
\<close>

theorem deepResearch_no_duplicates_witness:
  "deepResearch env0 (js ''topic'') 3 1 [] [] state0 =
     (Returned \<lparr>learnings = [js ''fact''], visitedUrls = [js ''http://a''], errors = []\<rparr>,
      state0\<lparr>totalJinaRequests := 3\<rparr>) \<and>
   distinct (learnings \<lparr>learnings = [js ''fact''], visitedUrls = [js ''http://a''], errors = []\<rparr>) \<and>
   distinct (visitedUrls \<lparr>learnings = [js ''fact''], visitedUrls = [js ''http://a''], errors = []\<rparr>)"
  using deepResearch_no_duplicates [OF deepResearch_env0_depth1] deepResearch_env0_depth1
  by blast


section \<open>A level on which every branch fails\<close>

lemma branch_failed:
  "research_step e breadth ls us sq s = (Thrown err, s1) \<Longrightarrow>
   branch e breadth depth ls us sq s =
     (Returned (failed_branch (query sq) err, [errorMsg (query sq) err]), s1)"
  by (subst branch.simps) simp

lemma runBranches_all_fail:
  "all_branches_fail e breadth ls us sqs s \<Longrightarrow>
   \<exists>results pushed s'.
     runBranches e breadth depth ls us sqs s = (Returned (results, pushed), s') \<and>
     concat (map learnings results) = [] \<and> concat (map visitedUrls results) = [] \<and>
     concat (map errors results) = pushed \<and> length pushed = length sqs"
proof (induction sqs arbitrary: s)
  case Nil
  show ?case by simp
next
  case (Cons sq sqs)
  from Cons.prems obtain err s1 where
    step: "research_step e breadth ls us sq s = (Thrown err, s1)"
    and rest: "all_branches_fail e breadth ls us sqs s1"
    by (auto split: prod.splits outcome.splits)
  from Cons.IH [OF rest] obtain results pushed s' where
    r: "runBranches e breadth depth ls us sqs s1 = (Returned (results, pushed), s')"
      "concat (map learnings results) = []" "concat (map visitedUrls results) = []"
      "concat (map errors results) = pushed" "length pushed = length sqs"
    by blast
  have "runBranches e breadth depth ls us (sq # sqs) s =
          (Returned (failed_branch (query sq) err # results, errorMsg (query sq) err # pushed), s')"
    by (simp add: branch_failed [OF step] r(1))
  with r(2-5) show ?case
    by (simp add: failed_branch_def)
qed

text \<open>
  \<^bold>\<open>C10.\<close> When \<open>deepResearch\<close> is called with a seed of learnings and visited URLs
  (of any content, non-empty included) and every branch of its level fails,
  it returns a result whose learnings and visited URLs are empty: the seed is not carried
  into the result. (The queries are generated for the breadth as \<open>slice\<close> reads it.)
\<close>

theorem seed_discarded_when_all_branches_fail:
  assumes "generateSerpQueries e q (to_integer breadth) ls s = (Inr qs, s1)"
    and "all_some (map as_SerpQuery qs) = Some serpQueries"
    and "all_branches_fail e breadth ls us serpQueries s1"
  shows "\<exists>r s'. deepResearch e q breadth depth ls us s = (Returned r, s') \<and>
           learnings r = [] \<and> visitedUrls r = []"
proof -
  from runBranches_all_fail [OF assms(3), of depth] obtain results pushed s' where
    r: "runBranches e breadth depth ls us serpQueries s1 = (Returned (results, pushed), s')"
      "concat (map learnings results) = []" "concat (map visitedUrls results) = []"
    by blast
  have "deepResearch e q breadth depth ls us s = (Returned (aggregate pushed results), s')"
    by (subst deepResearch.simps) (simp add: assms(1,2) r(1))
  moreover have "learnings (aggregate pushed results) = []"
    and "visitedUrls (aggregate pushed results) = []"
    by (simp_all add: aggregate_def r(2,3))
  ultimately show ?thesis
    by blast
qed

lemma sub_queries_env_no_summary:
  "generateSerpQueries env_no_summary q b ls s = generateSerpQueries env0 q b ls s"
  by (simp add: generateSerpQueries_def env_no_summary_def)

lemma search_env_no_summary:
  "executeDuckDuckSearchWithRetry env_no_summary q s = (Inr [the_page], s)"
  by (simp add: executeDuckDuckSearchWithRetry_def safeDuckDuckSearch_def env_no_summary_def
      env0_def)

lemma fetch_contents_env_no_summary:
  "totalJinaRequests s < 20 \<Longrightarrow>
   fetch_contents env_no_summary [the_page] s =
     ([\<lparr>page_url = js ''http://a'', markdown = js ''page text''\<rparr>],
      s\<lparr>totalJinaRequests := totalJinaRequests s + 1\<rparr>)"
  by (simp add: fetch_contents_single fetchJinaContentWithRetry_def fetchJinaContent_def
      env_no_summary_def env0_def)
    (simp add: the_page_def)

lemma extract_no_json: "extract_json (js ''I could not read the pages.'') = None"
  by code_simp

lemma summary_env_no_summary:
  "processSerpResult env_no_summary q data n m s =
     (Inl (Error (js ''Failed to process search results'')), s)"
  by (simp add: processSerpResult_def env_no_summary_def parse_learnings_def extract_no_json)

lemma research_step_env_no_summary:
  "totalJinaRequests s < 20 \<Longrightarrow>
   research_step env_no_summary b ls us sq s =
     (Thrown (Error (js ''Failed to process search results'')),
      s\<lparr>totalJinaRequests := totalJinaRequests s + 1\<rparr>)"
  by (simp add: research_step_def search_env_no_summary fetch_contents_env_no_summary
      summary_env_no_summary)

lemma deepResearch_env_no_summary:
  assumes "3 \<le> b"
  shows "deepResearch env_no_summary q b d ls us state0 =
     (Returned \<lparr>learnings = [], visitedUrls = [],
                errors = [js ''Failed to process query \"q1\": Failed to process search results'',
                          js ''Failed to process query \"q2\": Failed to process search results'',
                          js ''Failed to process query \"q3\": Failed to process search results'',
                          js ''Failed to process query \"q1\": Failed to process search results'',
                          js ''Failed to process query \"q2\": Failed to process search results'',
                          js ''Failed to process query \"q3\": Failed to process search results'']\<rparr>,
      state0\<lparr>totalJinaRequests := 3\<rparr>)"
  using to_integer_ge [of 3 b] assms
  by (simp add: deepResearch.simps branch.simps sub_queries_env_no_summary sub_queries_env0
      as_SerpQuery_object research_step_env_no_summary state0_def aggregate_def
      failed_branch_def errorMsg_def)
    (simp add: js_def)


text \<open>
  \<^bold>\<open>C10, an instance.\<close>
  A seed of one learning and one URL, three sub-queries whose summaries all fail.
\<close>

theorem seed_discarded_when_all_branches_fail_witness:
  "all_branches_fail env_no_summary 3 [js ''seed''] [js ''http://seed'']
     [\<lparr>query = js ''q1'', researchGoal = js ''g1''\<rparr>,
      \<lparr>query = js ''q2'', researchGoal = js ''g2''\<rparr>,
      \<lparr>query = js ''q3'', researchGoal = js ''g3''\<rparr>] state0 \<and>
   (\<exists>r s'. deepResearch env_no_summary (js ''topic'') 3 2 [js ''seed''] [js ''http://seed''] state0 =
              (Returned r, s') \<and>
            learnings r = [] \<and> visitedUrls r = [])"
proof -
  let ?qs = "[JObject [(js ''query'', JString (js ''q1'')), (js ''researchGoal'', JString (js ''g1''))],
              JObject [(js ''query'', JString (js ''q2'')), (js ''researchGoal'', JString (js ''g2''))],
              JObject [(js ''query'', JString (js ''q3'')), (js ''researchGoal'', JString (js ''g3''))]]"
  let ?sqs = "[\<lparr>query = js ''q1'', researchGoal = js ''g1''\<rparr>,
               \<lparr>query = js ''q2'', researchGoal = js ''g2''\<rparr>,
               \<lparr>query = js ''q3'', researchGoal = js ''g3''\<rparr>]"
  have a: "generateSerpQueries env_no_summary (js ''topic'') (to_integer 3) [js ''seed''] state0 =
             (Inr ?qs, state0)"
    by (simp add: sub_queries_env_no_summary sub_queries_env0)
  have b: "all_some (map as_SerpQuery ?qs) = Some ?sqs"
    by (rule sub_queries_typed)
  have c: "all_branches_fail env_no_summary 3 [js ''seed''] [js ''http://seed''] ?sqs state0"
    by (simp add: research_step_env_no_summary state0_def)
  from seed_discarded_when_all_branches_fail [OF a b c, of 2] c show ?thesis
    by blast
qed

text \<open>
  \<^bold>\<open>C3.\<close> The claim: when all three sub-query branches of the root fail the summary,
  the errors of the result have exactly one entry for each failed branch, three in all, and
  the learnings and visited URLs are empty. In the code the \<open>catch\<close> of a branch both
  pushes its message to the local array \<open>errors\<close> and returns it in the \<open>errors\<close> of
  the branch result, and the aggregation concatenates the two: each message is reported
  twice, six entries for three failed branches. The learnings and the visited URLs are
  empty, as claimed.
\<close>

theorem three_failed_branches_six_errors:
  "deepResearch env_no_summary (js ''topic'') 3 2 [] [] state0 =
     (Returned \<lparr>learnings = [], visitedUrls = [],
                errors = [js ''Failed to process query \"q1\": Failed to process search results'',
                          js ''Failed to process query \"q2\": Failed to process search results'',
                          js ''Failed to process query \"q3\": Failed to process search results'',
                          js ''Failed to process query \"q1\": Failed to process search results'',
                          js ''Failed to process query \"q2\": Failed to process search results'',
                          js ''Failed to process query \"q3\": Failed to process search results'']\<rparr>,
      state0\<lparr>totalJinaRequests := 3\<rparr>)"
  by (rule deepResearch_env_no_summary) simp

text \<open>
  \<^bold>\<open>C5.\<close> The claim: the route reports a failure when, after all branches, the result
  holds no learning. In the code every result that \<open>deepResearch\<close> returns is answered
  with status 200; the test of the learnings stands only in the \<open>catch\<close>, where the
  learnings are always empty. When all three branches fail, the response has status 200,
  no pages and no learnings (the request has no \<open>searchDepth\<close> and no
  \<open>searchBreadth\<close>, so they are 2 and 4).
\<close>

theorem POST_succeeds_without_learnings:
  "POST env_no_summary (Body (Some (js ''topic'')) None None) state0 =
     (Returned \<lparr>status = 200,
                body = ResultBody [] []
                  [js ''Failed to process query \"q1\": Failed to process search results'',
                   js ''Failed to process query \"q2\": Failed to process search results'',
                   js ''Failed to process query \"q3\": Failed to process search results'',
                   js ''Failed to process query \"q1\": Failed to process search results'',
                   js ''Failed to process query \"q2\": Failed to process search results'',
                   js ''Failed to process query \"q3\": Failed to process search results'']\<rparr>,
      state0\<lparr>totalJinaRequests := 3\<rparr>)"
proof -
  have q: "js ''topic'' \<noteq> []"
    by (simp add: js_def)
  have e: "\<not> rateLimits_enabled env_no_summary"
    by (simp add: env_no_summary_def env0_def)
  have d: "deepResearch env_no_summary (js ''topic'') 4 2 [] [] state0 =
     (Returned \<lparr>learnings = [], visitedUrls = [],
                errors = [js ''Failed to process query \"q1\": Failed to process search results'',
                          js ''Failed to process query \"q2\": Failed to process search results'',
                          js ''Failed to process query \"q3\": Failed to process search results'',
                          js ''Failed to process query \"q1\": Failed to process search results'',
                          js ''Failed to process query \"q2\": Failed to process search results'',
                          js ''Failed to process query \"q3\": Failed to process search results'']\<rparr>,
      state0\<lparr>totalJinaRequests := 3\<rparr>)"
    by (rule deepResearch_env_no_summary) simp
  show ?thesis
    by (simp add: POST_def research_response_def q e d webPages_value_def)
qed

section \<open>The recursion of the orchestrator\<close>

lemma traced_erase:
  "fst (deepResearch_traced e q breadth depth ls us s) = deepResearch e q breadth depth ls us s"
  "fst (runBranches_traced e breadth depth ls us sqs s') = runBranches e breadth depth ls us sqs s'"
  "fst (branch_traced e breadth depth ls us sq s'') = branch e breadth depth ls us sq s''"
proof (induction e q breadth depth ls us s and e breadth depth ls us sqs s'
    and e breadth depth ls us sq s''
    rule: deepResearch_traced_runBranches_traced_branch_traced.induct)
  case (1 e q breadth depth ls us s)
  show ?case
  proof (cases "generateSerpQueries e q (to_integer breadth) ls s")
    case (Pair x y)
    show ?thesis
    proof (cases x)
      case (Inl err)
      with Pair show ?thesis
        by (simp add: deepResearch_traced.simps deepResearch.simps)
    next
      case (Inr b)
      show ?thesis
      proof (cases "all_some (map as_SerpQuery b)")
        case None
        with Pair Inr show ?thesis
          by (simp add: deepResearch_traced.simps deepResearch.simps)
      next
        case (Some x2)
        from "1.IH" [OF Pair [symmetric] Inr Some]
        have ih: "fst (runBranches_traced e breadth depth ls us x2 y) =
                    runBranches e breadth depth ls us x2 y" .
        obtain out s2 cs where
          t: "runBranches_traced e breadth depth ls us x2 y = ((out, s2), cs)"
          by (metis prod.exhaust)
        with ih have r: "runBranches e breadth depth ls us x2 y = (out, s2)"
          by simp
        from Pair Inr Some t r show ?thesis
          by (cases out) (auto simp: deepResearch_traced.simps deepResearch.simps)
      qed
    qed
  qed
next
  case (2 e breadth depth ls us s)
  show ?case by simp
next
  case (3 e breadth depth ls us serpQuery rest s)
  obtain out s1 cs where
    t: "branch_traced e breadth depth ls us serpQuery s = ((out, s1), cs)"
    by (metis prod.exhaust)
  with "3.IH"(1) have b: "branch e breadth depth ls us serpQuery s = (out, s1)"
    by simp
  from "3.IH"(2) [OF t [symmetric] refl]
  have ih: "fst (runBranches_traced e breadth depth ls us rest s1) =
              runBranches e breadth depth ls us rest s1" .
  obtain out' s2 cs' where
    t': "runBranches_traced e breadth depth ls us rest s1 = ((out', s2), cs')"
    by (metis prod.exhaust)
  with ih have r': "runBranches e breadth depth ls us rest s1 = (out', s2)"
    by simp
  from t b t' r' show ?case
    by (cases out; cases out') auto
next
  case (4 e breadth depth ls us serpQuery s)
  show ?case
  proof (cases "research_step e breadth ls us serpQuery s")
    case (Pair x y)
    show ?thesis
    proof (cases x)
      case (Returned x1)
      obtain followUps allLearnings allUrls where x1: "x1 = (followUps, allLearnings, allUrls)"
        by (cases x1)
      show ?thesis
      proof (cases "0 < depth - 1 \<and> \<not> max_exact < depth")
        case True
        then have pos: "0 < depth - 1" and range: "\<not> max_exact < depth"
          by simp_all
        from "4.IH" [OF Pair [symmetric] Returned _ _ pos range, of followUps "(allLearnings, allUrls)"
            allLearnings allUrls] x1
        have ih: "fst (deepResearch_traced e (nextQuery (researchGoal serpQuery) followUps)
                    (ceil_half breadth) (depth - 1) allLearnings allUrls y) =
                  deepResearch e (nextQuery (researchGoal serpQuery) followUps)
                    (ceil_half breadth) (depth - 1) allLearnings allUrls y"
          by simp
        obtain out s2 c where
          t: "deepResearch_traced e (nextQuery (researchGoal serpQuery) followUps)
                (ceil_half breadth) (depth - 1) allLearnings allUrls y = ((out, s2), c)"
          by (metis prod.exhaust)
        with ih have r: "deepResearch e (nextQuery (researchGoal serpQuery) followUps)
                (ceil_half breadth) (depth - 1) allLearnings allUrls y = (out, s2)"
          by simp
        from Pair Returned x1 pos range t r show ?thesis
          by (cases out) (auto simp: branch_traced.simps branch.simps)
      next
        case False
        with Pair Returned x1 show ?thesis
          by (auto simp: branch_traced.simps branch.simps)
      qed
    next
      case (Thrown err)
      with Pair show ?thesis
        by (simp add: branch_traced.simps branch.simps)
    next
      case IllTyped
      with Pair show ?thesis
        by (simp add: branch_traced.simps branch.simps)
    next
      case OutOfRange
      with Pair show ?thesis
        by (simp add: branch_traced.simps branch.simps)
    qed
  qed
qed

lemma foldr_max_le: "(\<And>x. x \<in> set xs \<Longrightarrow> x \<le> n) \<Longrightarrow> foldr max xs 0 \<le> (n::nat)"
  by (induction xs) auto

lemma invocation_from_inner_calls:
  assumes "\<And>c. c \<in> set cs \<Longrightarrow> inner_call breadth depth c"
  shows "calls_ok (Call breadth depth cs) \<and>
         (0 < depth \<longrightarrow> levels (Call breadth depth cs) \<le> nat \<lceil>depth\<rceil>)"
proof
  show "calls_ok (Call breadth depth cs)"
    using assms by (auto simp: inner_call_def list_all_iff)
  show "0 < depth \<longrightarrow> levels (Call breadth depth cs) \<le> nat \<lceil>depth\<rceil>"
  proof
    assume d: "0 < depth"
    then have one: "1 \<le> \<lceil>depth\<rceil>"
      by (simp add: le_ceiling_iff)
    then have "Suc (nat (\<lceil>depth\<rceil> - 1)) = nat \<lceil>depth\<rceil>"
      by arith
    moreover have "foldr max (map levels cs) 0 \<le> nat \<lceil>depth - 1\<rceil>"
      using assms by (intro foldr_max_le) (auto simp: inner_call_def)
    ultimately show "levels (Call breadth depth cs) \<le> nat \<lceil>depth\<rceil>"
      by simp
  qed
qed

lemma traced_calls:
  "\<exists>cs. snd (deepResearch_traced e q breadth depth ls us s) = Call breadth depth cs \<and>
         (\<forall>c \<in> set cs. inner_call breadth depth c)"
  "\<forall>c \<in> set (snd (runBranches_traced e breadth depth ls us sqs s')). inner_call breadth depth c"
  "\<forall>c \<in> set (snd (branch_traced e breadth depth ls us sq s'')). inner_call breadth depth c"
proof (induction e q breadth depth ls us s and e breadth depth ls us sqs s'
    and e breadth depth ls us sq s''
    rule: deepResearch_traced_runBranches_traced_branch_traced.induct)
  case (1 e q breadth depth ls us s)
  show ?case
  proof (cases "generateSerpQueries e q (to_integer breadth) ls s")
    case (Pair x y)
    show ?thesis
    proof (cases x)
      case (Inl err)
      with Pair show ?thesis
        by (simp add: deepResearch_traced.simps)
    next
      case (Inr b)
      show ?thesis
      proof (cases "all_some (map as_SerpQuery b)")
        case None
        with Pair Inr show ?thesis
          by (simp add: deepResearch_traced.simps)
      next
        case (Some x2)
        note ih = "1.IH" [OF Pair [symmetric] Inr Some]
        obtain out s2 cs where
          t: "runBranches_traced e breadth depth ls us x2 y = ((out, s2), cs)"
          by (metis prod.exhaust)
        with ih have "\<forall>c \<in> set cs. inner_call breadth depth c"
          by simp
        with Pair Inr Some t show ?thesis
          by (cases out) (auto simp: deepResearch_traced.simps)
      qed
    qed
  qed
next
  case (2 e breadth depth ls us s)
  show ?case by simp
next
  case (3 e breadth depth ls us serpQuery rest s)
  obtain out s1 cs where
    t: "branch_traced e breadth depth ls us serpQuery s = ((out, s1), cs)"
    by (metis prod.exhaust)
  with "3.IH"(1) have c: "\<forall>c \<in> set cs. inner_call breadth depth c"
    by simp
  note ih = "3.IH"(2) [OF t [symmetric] refl]
  obtain out' s2 cs' where
    t': "runBranches_traced e breadth depth ls us rest s1 = ((out', s2), cs')"
    by (metis prod.exhaust)
  with ih have "\<forall>c \<in> set cs'. inner_call breadth depth c"
    by simp
  with c t t' show ?case
    by (cases out; cases out') auto
next
  case (4 e breadth depth ls us serpQuery s)
  show ?case
  proof (cases "research_step e breadth ls us serpQuery s")
    case (Pair x y)
    show ?thesis
    proof (cases x)
      case (Returned x1)
      obtain followUps allLearnings allUrls where x1: "x1 = (followUps, allLearnings, allUrls)"
        by (cases x1)
      show ?thesis
      proof (cases "0 < depth - 1 \<and> \<not> max_exact < depth")
        case True
        then have pos: "0 < depth - 1" and range: "\<not> max_exact < depth"
          by simp_all
        from "4.IH" [OF Pair [symmetric] Returned _ _ pos range, of followUps "(allLearnings, allUrls)"
            allLearnings allUrls] x1
        obtain cs where
          ih: "snd (deepResearch_traced e (nextQuery (researchGoal serpQuery) followUps)
                    (ceil_half breadth) (depth - 1) allLearnings allUrls y) =
                 Call (ceil_half breadth) (depth - 1) cs"
            "\<forall>c \<in> set cs. inner_call (ceil_half breadth) (depth - 1) c"
          by auto
        obtain out s2 c where
          t: "deepResearch_traced e (nextQuery (researchGoal serpQuery) followUps)
                (ceil_half breadth) (depth - 1) allLearnings allUrls y = ((out, s2), c)"
          by (metis prod.exhaust)
        with ih(1) have c: "c = Call (ceil_half breadth) (depth - 1) cs"
          by simp
        from invocation_from_inner_calls [of cs "ceil_half breadth" "depth - 1"] ih(2) pos
        have "inner_call breadth depth c"
          unfolding c by (simp add: inner_call_def)
        with Pair Returned x1 pos range t show ?thesis
          by (cases out) (auto simp: branch_traced.simps)
      next
        case False
        with Pair Returned x1 show ?thesis
          by (auto simp: branch_traced.simps)
      qed
    next
      case (Thrown err)
      with Pair show ?thesis
        by (simp add: branch_traced.simps)
    next
      case IllTyped
      with Pair show ?thesis
        by (simp add: branch_traced.simps)
    next
      case OutOfRange
      with Pair show ?thesis
        by (simp add: branch_traced.simps)
    qed
  qed
qed

text \<open>Up to \<open>2^53\<close> the model follows the program to its end.\<close>

lemma research_step_in_range: "fst (research_step e breadth ls us sq s) \<noteq> OutOfRange"
  by (auto simp: research_step_def Let_def split: prod.splits sum.splits option.splits)

lemma in_range:
  "depth \<le> max_exact \<Longrightarrow> fst (deepResearch e q breadth depth ls us s) \<noteq> OutOfRange"
  "depth \<le> max_exact \<Longrightarrow> fst (runBranches e breadth depth ls us sqs s') \<noteq> OutOfRange"
  "depth \<le> max_exact \<Longrightarrow> fst (branch e breadth depth ls us sq s'') \<noteq> OutOfRange"
proof (induction e q breadth depth ls us s and e breadth depth ls us sqs s'
    and e breadth depth ls us sq s''
    rule: deepResearch_runBranches_branch.induct)
  case (1 e q breadth depth ls us s)
  show ?case
  proof (cases "generateSerpQueries e q (to_integer breadth) ls s")
    case (Pair x y)
    show ?thesis
    proof (cases x)
      case (Inl err)
      with Pair show ?thesis
        by (simp add: deepResearch.simps)
    next
      case (Inr b)
      show ?thesis
      proof (cases "all_some (map as_SerpQuery b)")
        case None
        with Pair Inr show ?thesis
          by (simp add: deepResearch.simps)
      next
        case (Some x2)
        from "1.IH" [OF Pair [symmetric] Inr Some "1.prems"]
        have "fst (runBranches e breadth depth ls us x2 y) \<noteq> OutOfRange" .
        with Pair Inr Some show ?thesis
          by (subst deepResearch.simps) (auto split: prod.splits outcome.splits)
      qed
    qed
  qed
next
  case (2 e breadth depth ls us s)
  show ?case by simp
next
  case (3 e breadth depth ls us serpQuery rest s)
  obtain out s1 where b: "branch e breadth depth ls us serpQuery s = (out, s1)"
    by (cases "branch e breadth depth ls us serpQuery s")
  with "3.IH"(1) [OF "3.prems"] have o: "out \<noteq> OutOfRange"
    by simp
  show ?case
  proof (cases out)
    case (Returned x1)
    obtain r p where x1: "x1 = (r, p)"
      by (cases x1)
    from "3.IH"(2) [OF b [symmetric] Returned x1 [symmetric] "3.prems"]
    have "fst (runBranches e breadth depth ls us rest s1) \<noteq> OutOfRange" .
    with b Returned x1 show ?thesis
      by (auto split: prod.splits outcome.splits)
  next
    case (Thrown err)
    with b show ?thesis by simp
  next
    case IllTyped
    with b show ?thesis by simp
  next
    case OutOfRange
    with o show ?thesis by simp
  qed
next
  case (4 e breadth depth ls us serpQuery s)
  from "4.prems" have range: "\<not> max_exact < depth"
    by simp
  show ?case
  proof (cases "research_step e breadth ls us serpQuery s")
    case (Pair x y)
    show ?thesis
    proof (cases x)
      case (Returned x1)
      obtain followUps allLearnings allUrls where x1: "x1 = (followUps, allLearnings, allUrls)"
        by (cases x1)
      show ?thesis
      proof (cases "0 < depth - 1")
        case True
        from "4.prems" have below: "depth - 1 \<le> max_exact"
          by simp
        from "4.IH" [OF Pair [symmetric] Returned _ _ True range, of followUps "(allLearnings, allUrls)"
            allLearnings allUrls] x1 below
        have "fst (deepResearch e (nextQuery (researchGoal serpQuery) followUps)
                    (ceil_half breadth) (depth - 1) allLearnings allUrls y) \<noteq> OutOfRange"
          by simp
        with Pair Returned x1 True range show ?thesis
          by (subst branch.simps) (auto split: prod.splits outcome.splits)
      next
        case False
        with Pair Returned x1 show ?thesis
          by (simp add: branch.simps)
      qed
    next
      case (Thrown err)
      with Pair show ?thesis
        by (simp add: branch.simps)
    next
      case IllTyped
      with Pair show ?thesis
        by (simp add: branch.simps)
    next
      case OutOfRange
      with Pair research_step_in_range [of e breadth ls us serpQuery s] show ?thesis
        by simp
    qed
  qed
qed

text \<open>
  \<^bold>\<open>C1, amended.\<close> For a depth up to \<open>2^53\<close>, \<open>deepResearch\<close> terminates (the
  functions are total, and the run does not leave the range of exact subtraction). Its
  invocation with \<open>breadth\<close> and \<open>depth\<close> makes recursive calls with breadth
  \<open>Math.ceil(breadth / 2)\<close> and depth \<open>depth - 1\<close> only, and only when \<open>depth - 1\<close> is
  positive; the same holds of every call below, those of the branches that run on after a
  rejection included. When the depth is positive the recursion has at most as many levels
  as the depth rounded up: at most \<open>depth\<close> levels when the depth is an integer.
  (\<open>breadth \<ge> 1\<close> is not needed.)
\<close>

theorem deepResearch_recursion:
  assumes "depth \<le> max_exact"
  shows "\<exists>cs. deepResearch_traced e q breadth depth ls us s =
                (deepResearch e q breadth depth ls us s, Call breadth depth cs) \<and>
              fst (deepResearch e q breadth depth ls us s) \<noteq> OutOfRange \<and>
              calls_ok (Call breadth depth cs) \<and>
              (0 < depth \<longrightarrow> levels (Call breadth depth cs) \<le> nat \<lceil>depth\<rceil>) \<and>
              (0 < depth \<and> of_int \<lfloor>depth\<rfloor> = depth \<longrightarrow>
                 of_nat (levels (Call breadth depth cs)) \<le> depth)"
proof -
  from traced_calls(1) [of e q breadth depth ls us s] obtain cs where
    t: "snd (deepResearch_traced e q breadth depth ls us s) = Call breadth depth cs"
    and c: "\<forall>c \<in> set cs. inner_call breadth depth c"
    by blast
  from t traced_erase(1) [of e q breadth depth ls us s]
  have eq: "deepResearch_traced e q breadth depth ls us s =
          (deepResearch e q breadth depth ls us s, Call breadth depth cs)"
    by (metis prod.collapse)
  from invocation_from_inner_calls [of cs breadth depth] c
  have ok: "calls_ok (Call breadth depth cs)"
    and lv: "0 < depth \<longrightarrow> levels (Call breadth depth cs) \<le> nat \<lceil>depth\<rceil>"
    by blast+
  have "of_nat (levels (Call breadth depth cs)) \<le> depth"
    if pos: "0 < depth" and whole: "of_int \<lfloor>depth\<rfloor> = depth"
  proof -
    from whole have "\<lceil>depth\<rceil> = \<lfloor>depth\<rfloor>"
      by (metis ceiling_of_int)
    with lv pos have "int (levels (Call breadth depth cs)) \<le> \<lfloor>depth\<rfloor>"
      by simp
    then have "(of_int (int (levels (Call breadth depth cs))) :: rat) \<le> of_int \<lfloor>depth\<rfloor>"
      by (simp only: of_int_le_iff)
    then have "(of_int (int (levels (Call breadth depth cs))) :: rat) \<le> depth"
      unfolding whole .
    then show ?thesis
      by simp
  qed
  with eq in_range(1) [OF assms] ok lv show ?thesis
    by blast
qed

lemma deepResearch_traced_env0_leaf:
  "totalJinaRequests s < 18 \<Longrightarrow> d \<le> 1 \<Longrightarrow>
   deepResearch_traced env0 q 2 d ls us s =
     ((Returned \<lparr>learnings = set_spread ((ls @ [js ''fact'']) @ (ls @ [js ''fact''])),
                 visitedUrls = set_spread ((us @ [js ''http://a'']) @ (us @ [js ''http://a''])),
                 errors = []\<rparr>,
       s\<lparr>totalJinaRequests := totalJinaRequests s + 2\<rparr>),
      Call 2 d [])"
  by (simp add: deepResearch_traced.simps branch_traced.simps two_sub_queries_env0
      as_SerpQuery_object research_step_env0 aggregate_def del: set_spread.simps)

lemma deepResearch_traced_env0_two_levels:
  "1 < d \<Longrightarrow> d \<le> 2 \<Longrightarrow>
   snd (deepResearch_traced env0 (js ''topic'') 3 d [] [] state0) =
     Call 3 d [Call 2 (d - 1) [], Call 2 (d - 1) [], Call 2 (d - 1) []]"
  by (subst deepResearch_traced.simps)
    (simp add: branch_traced.simps sub_queries_env0 as_SerpQuery_object research_step_env0
      deepResearch_traced_env0_leaf ceil_half_3 max_exact_def state0_def del: set_spread.simps)

text \<open>
  \<^bold>\<open>C1, an instance.\<close>
  Breadth 3 and depth 2: the root makes three calls with breadth 2 and depth 1, which make
  none.
\<close>

theorem deepResearch_recursion_witness:
  "(2::rat) \<le> max_exact \<and> (0::rat) < 2 \<and> of_int \<lfloor>2::rat\<rfloor> = (2::rat) \<and>
   deepResearch_traced env0 (js ''topic'') 3 2 [] [] state0 =
     (deepResearch env0 (js ''topic'') 3 2 [] [] state0,
      Call 3 2 [Call 2 1 [], Call 2 1 [], Call 2 1 []]) \<and>
   fst (deepResearch env0 (js ''topic'') 3 2 [] [] state0) \<noteq> OutOfRange \<and>
   calls_ok (Call 3 2 [Call 2 1 [], Call 2 1 [], Call 2 1 []]) \<and>
   levels (Call 3 2 [Call 2 1 [], Call 2 1 [], Call 2 1 []]) \<le> nat \<lceil>2::rat\<rceil> \<and>
   of_nat (levels (Call 3 2 [Call 2 1 [], Call 2 1 [], Call 2 1 []])) \<le> (2::rat)"
proof -
  have r: "(2::rat) \<le> max_exact"
    by (simp add: max_exact_def)
  from deepResearch_recursion [OF r, of env0 "js ''topic''" 3 "[]" "[]" state0] obtain cs where
    t: "deepResearch_traced env0 (js ''topic'') 3 2 [] [] state0 =
          (deepResearch env0 (js ''topic'') 3 2 [] [] state0, Call 3 2 cs)"
    and n: "fst (deepResearch env0 (js ''topic'') 3 2 [] [] state0) \<noteq> OutOfRange"
    and c: "calls_ok (Call 3 2 cs)"
    and l: "(0::rat) < 2 \<longrightarrow> levels (Call 3 2 cs) \<le> nat \<lceil>2::rat\<rceil>"
    and i: "(0::rat) < 2 \<and> of_int \<lfloor>2::rat\<rfloor> = (2::rat) \<longrightarrow> of_nat (levels (Call 3 2 cs)) \<le> (2::rat)"
    by blast
  from t deepResearch_traced_env0_two_levels [of 2] have "cs = [Call 2 1 [], Call 2 1 [], Call 2 1 []]"
    by simp
  with r t n c l i show ?thesis
    by simp
qed

text \<open>
  \<^bold>\<open>C1, as the claim states it.\<close> The route passes \<open>searchDepth\<close> on as it comes, so
  the depth can be 1.5. Then the root makes its calls with depth 0.5, which is positive:
  the recursion has two levels, more than the depth.
\<close>

theorem deepResearch_depth_not_integer:
  "snd (deepResearch_traced env0 (js ''topic'') 3 (3 / 2) [] [] state0) =
     Call 3 (3 / 2) [Call 2 (1 / 2) [], Call 2 (1 / 2) [], Call 2 (1 / 2) []] \<and>
   levels (Call 3 (3 / 2) [Call 2 (1 / 2) [], Call 2 (1 / 2) [], Call 2 (1 / 2) []]) = 2 \<and>
   (1::rat) \<le> 3 / 2 \<and>
   \<not> of_nat (levels (Call 3 (3 / 2) [Call 2 (1 / 2) [], Call 2 (1 / 2) [], Call 2 (1 / 2) []]))
       \<le> (3 / 2 :: rat)"
  using deepResearch_traced_env0_two_levels [of "3 / 2"] by simp

text \<open>
  Beyond \<open>2^53\<close>: with depth \<open>1e16\<close> the model stops where the first branch would
  make its recursive call, with the depth \<open>1e16 - 1\<close> that the program rounds to
  \<open>1e16\<close>.
\<close>

lemma depth_beyond_exact_range:
  "deepResearch env0 (js ''topic'') 3 10000000000000000 [] [] state0 =
     (OutOfRange, state0\<lparr>totalJinaRequests := 1\<rparr>)"
  by (subst deepResearch.simps)
    (simp add: branch.simps sub_queries_env0 as_SerpQuery_object research_step_env0
      max_exact_def state0_def)

text \<open>
  The branches that run on after a rejection. The language model fails for every inner
  call, so the first branch of the root rejects and the root with it, after one fetch;
  the two branches still queued run on and make their calls: three calls in all.
\<close>

lemma sub_queries_env_inner_fails:
  "generateSerpQueries env_inner_fails q b [] s = generateSerpQueries env0 q b [] s"
  by (simp add: generateSerpQueries_def env_inner_fails_def env0_def)

lemma no_sub_queries_env_inner_fails:
  "ls \<noteq> [] \<Longrightarrow>
   generateSerpQueries env_inner_fails q b ls s = (Inl (Error (js ''service unavailable'')), s)"
  by (simp add: generateSerpQueries_def env_inner_fails_def)

lemma search_env_inner_fails:
  "executeDuckDuckSearchWithRetry env_inner_fails q s = (Inr [the_page], s)"
  by (simp add: executeDuckDuckSearchWithRetry_def safeDuckDuckSearch_def env_inner_fails_def
      env0_def)

lemma fetch_contents_env_inner_fails:
  "totalJinaRequests s < 20 \<Longrightarrow>
   fetch_contents env_inner_fails [the_page] s =
     ([\<lparr>page_url = js ''http://a'', markdown = js ''page text''\<rparr>],
      s\<lparr>totalJinaRequests := totalJinaRequests s + 1\<rparr>)"
  by (simp add: fetch_contents_single fetchJinaContentWithRetry_def fetchJinaContent_def
      env_inner_fails_def env0_def)
    (simp add: the_page_def)

lemma summary_env_inner_fails:
  "generateContent_learnings env_inner_fails q cs n m s = (Inr answer_learnings, s)"
  by (simp add: env_inner_fails_def env0_def)

lemma research_step_env_inner_fails:
  "totalJinaRequests s < 20 \<Longrightarrow> 1 \<le> b \<Longrightarrow>
   research_step env_inner_fails b ls us sq s =
     (Returned ([js ''next?''], ls @ [js ''fact''], us @ [js ''http://a'']),
      s\<lparr>totalJinaRequests := totalJinaRequests s + 1\<rparr>)"
  by (simp add: research_step_def search_env_inner_fails fetch_contents_env_inner_fails
      processSerpResult_def ceil_half_positive parse_answer_learnings summary_env_inner_fails)

lemma inner_call_env_inner_fails:
  "ls \<noteq> [] \<Longrightarrow>
   deepResearch_traced env_inner_fails q b d ls us s =
     ((Thrown (Error (js ''Failed to generate initial search queries'')), s), Call b d [])"
  by (simp add: deepResearch_traced.simps no_sub_queries_env_inner_fails)

lemma calls_after_rejection:
  "deepResearch_traced env_inner_fails (js ''topic'') 3 2 [] [] state0 =
     ((Thrown (Error (js ''Failed to generate initial search queries'')),
       state0\<lparr>totalJinaRequests := 1\<rparr>),
      Call 3 2 [Call 2 1 [], Call 2 1 [], Call 2 1 []])"
  by (subst deepResearch_traced.simps)
    (simp add: branch_traced.simps sub_queries_env_inner_fails sub_queries_env0
      as_SerpQuery_object research_step_env_inner_fails inner_call_env_inner_fails
      ceil_half_3 max_exact_def state0_def)

end
